theory Spec2Isabelle
  imports Complex_Main "HOL-Library.Char_ord" "HOL-Library.List_Lexorder"
begin

section \<open>Boolean expressions (expressions.ts)\<close>

text \<open>
  The class hierarchy \<open>BooleanExpression\<close> is a tagged tree. The four subclasses of the
  abstract class \<open>BinaryOperation\<close> differ only in their operator, so a binary node
  carries the operator as a tag; \<open>Conjunction\<close>, \<open>Disjunction\<close>, \<open>Implication\<close> and
  \<open>Biconditional\<close> are the four instances.
\<close>

datatype binop = AND | OR | IMP | IFF

datatype expr =
    Variable string
  | Negation expr
  | BinaryOperation binop expr expr
  | TrueConstant
  | FalseConstant

abbreviation Conjunction :: "expr \<Rightarrow> expr \<Rightarrow> expr" where
  "Conjunction l r \<equiv> BinaryOperation AND l r"

abbreviation Disjunction :: "expr \<Rightarrow> expr \<Rightarrow> expr" where
  "Disjunction l r \<equiv> BinaryOperation OR l r"

abbreviation Implication :: "expr \<Rightarrow> expr \<Rightarrow> expr" where
  "Implication l r \<equiv> BinaryOperation IMP l r"

abbreviation Biconditional :: "expr \<Rightarrow> expr \<Rightarrow> expr" where
  "Biconditional l r \<equiv> BinaryOperation IFF l r"

datatype error = EvaluationError | RuleViolation | TruthTableTooLarge | ParseError | OutOfFuel

text \<open>
  An assignment is a plain JavaScript object. The model keeps its own properties, a
  partial map from names to booleans; its prototype is \<open>Object.prototype\<close>, whose
  property names are listed in \<open>objectPrototypeKeys\<close>.
\<close>

type_synonym Assignment = "string \<rightharpoonup> bool"

definition objectPrototypeKeys :: "string list" where
  "objectPrototypeKeys =
    [''constructor'', ''__defineGetter__'', ''__defineSetter__'', ''hasOwnProperty'',
     ''__lookupGetter__'', ''__lookupSetter__'', ''isPrototypeOf'', ''propertyIsEnumerable'',
     ''toString'', ''valueOf'', ''__proto__'', ''toLocaleString'']"

text \<open>
  What \<open>evaluate\<close> can return: a boolean, or a member of \<open>Object.prototype\<close> (a function
  or an object), which is no boolean and counts as true in a condition.
\<close>

datatype jsvalue = JSBoolean bool | JSInherited

fun truthy :: "jsvalue \<Rightarrow> bool" where
  "truthy (JSBoolean b) = b"
| "truthy JSInherited = True"

text \<open>
  \<open>evaluate\<close>. The test \<open>name in assignment\<close> holds for the own properties and for the
  inherited ones, so a variable throws only when its name is neither; an own property
  gives its boolean, an inherited one its member of \<open>Object.prototype\<close>. \<open>!\<close> gives a
  boolean. \<open>&&\<close> and \<open>||\<close> give one of their operands and do not evaluate the right
  one when the left one decides. \<open>Biconditional\<close> evaluates both sides first and then
  computes \<open>(l && r) || (!l && !r)\<close>.
\<close>

fun evaluate :: "expr \<Rightarrow> Assignment \<Rightarrow> error + jsvalue" where
  "evaluate (Variable n) a =
     (case a n of
        Some b \<Rightarrow> Inr (JSBoolean b)
      | None \<Rightarrow> if n \<in> set objectPrototypeKeys then Inr JSInherited
                else Inl EvaluationError)"
| "evaluate (Negation e) a =
     (case evaluate e a of Inl x \<Rightarrow> Inl x | Inr v \<Rightarrow> Inr (JSBoolean (\<not> truthy v)))"
| "evaluate (BinaryOperation AND l r) a =
     (case evaluate l a of Inl x \<Rightarrow> Inl x
      | Inr lv \<Rightarrow> if truthy lv then evaluate r a else Inr lv)"
| "evaluate (BinaryOperation OR l r) a =
     (case evaluate l a of Inl x \<Rightarrow> Inl x
      | Inr lv \<Rightarrow> if truthy lv then Inr lv else evaluate r a)"
| "evaluate (BinaryOperation IMP l r) a =
     (case evaluate l a of Inl x \<Rightarrow> Inl x
      | Inr lv \<Rightarrow> if \<not> truthy lv then Inr (JSBoolean True) else evaluate r a)"
| "evaluate (BinaryOperation IFF l r) a =
     (case evaluate l a of Inl x \<Rightarrow> Inl x
      | Inr lv \<Rightarrow>
         (case evaluate r a of Inl y \<Rightarrow> Inl y
          | Inr rv \<Rightarrow>
              let both = (if truthy lv then rv else lv)
              in if truthy both then Inr both
                 else if \<not> truthy lv then Inr (JSBoolean (\<not> truthy rv))
                 else Inr (JSBoolean False)))"
| "evaluate TrueConstant a = Inr (JSBoolean True)"
| "evaluate FalseConstant a = Inr (JSBoolean False)"

text \<open>\<open>equals\<close>: each class compares the other's class, then its fields.\<close>

fun equals :: "expr \<Rightarrow> expr \<Rightarrow> bool" where
  "equals (Variable n) other = (case other of Variable m \<Rightarrow> n = m | _ \<Rightarrow> False)"
| "equals (Negation e) other = (case other of Negation e' \<Rightarrow> equals e e' | _ \<Rightarrow> False)"
| "equals (BinaryOperation opr l r) other =
     (case other of
        BinaryOperation opr' l' r' \<Rightarrow> opr' = opr \<and> equals l l' \<and> equals r r'
      | _ \<Rightarrow> False)"
| "equals TrueConstant other = (case other of TrueConstant \<Rightarrow> True | _ \<Rightarrow> False)"
| "equals FalseConstant other = (case other of FalseConstant \<Rightarrow> True | _ \<Rightarrow> False)"

fun clone :: "expr \<Rightarrow> expr" where
  "clone (Variable n) = Variable n"
| "clone (Negation e) = Negation (clone e)"
| "clone (BinaryOperation opr l r) = BinaryOperation opr (clone l) (clone r)"
| "clone TrueConstant = TrueConstant"
| "clone FalseConstant = FalseConstant"

fun getLength :: "expr \<Rightarrow> int" where
  "getLength (Variable n) = 1"
| "getLength (Negation e) = getLength e + 1"
| "getLength (BinaryOperation opr l r) = getLength l + getLength r + 1"
| "getLength TrueConstant = 1"
| "getLength FalseConstant = 1"

text \<open>
  \<open>getVariables\<close> returns a JavaScript \<open>Set\<close>, which keeps its elements in insertion
  order without duplicates: a duplicate-free list. \<open>new Set([...l, ...r])\<close> keeps the
  elements of \<open>l\<close> and appends those of \<open>r\<close> that are new.
\<close>

definition newSet :: "string list \<Rightarrow> string list \<Rightarrow> string list" where
  "newSet l r = l @ filter (\<lambda>x. x \<notin> set l) r"

fun getVariables :: "expr \<Rightarrow> string list" where
  "getVariables (Variable n) = [n]"
| "getVariables (Negation e) = getVariables e"
| "getVariables (BinaryOperation opr l r) = newSet (getVariables l) (getVariables r)"
| "getVariables TrueConstant = []"
| "getVariables FalseConstant = []"

fun getOperatorName :: "binop \<Rightarrow> string" where
  "getOperatorName AND = ''AND''"
| "getOperatorName OR = ''OR''"
| "getOperatorName IMP = ''IMP''"
| "getOperatorName IFF = ''IFF''"

fun getHash :: "expr \<Rightarrow> string" where
  "getHash (Variable n) = ''VAR('' @ n @ '')''"
| "getHash (Negation e) = ''NOT('' @ getHash e @ '')''"
| "getHash (BinaryOperation opr l r) =
     getOperatorName opr @ ''('' @ getHash l @ '', '' @ getHash r @ '')''"
| "getHash TrueConstant = ''TRUE''"
| "getHash FalseConstant = ''FALSE''"

text \<open>The type guards.\<close>

fun isNegation :: "expr \<Rightarrow> bool" where
  "isNegation (Negation e) = True"
| "isNegation _ = False"

fun isConjunction :: "expr \<Rightarrow> bool" where
  "isConjunction (BinaryOperation AND l r) = True"
| "isConjunction _ = False"

fun isDisjunction :: "expr \<Rightarrow> bool" where
  "isDisjunction (BinaryOperation OR l r) = True"
| "isDisjunction _ = False"

fun isImplication :: "expr \<Rightarrow> bool" where
  "isImplication (BinaryOperation IMP l r) = True"
| "isImplication _ = False"

fun isBiconditional :: "expr \<Rightarrow> bool" where
  "isBiconditional (BinaryOperation IFF l r) = True"
| "isBiconditional _ = False"

fun isTrueConstant :: "expr \<Rightarrow> bool" where
  "isTrueConstant TrueConstant = True"
| "isTrueConstant _ = False"

fun isFalseConstant :: "expr \<Rightarrow> bool" where
  "isFalseConstant FalseConstant = True"
| "isFalseConstant _ = False"

fun isBinaryOperation :: "expr \<Rightarrow> bool" where
  "isBinaryOperation (BinaryOperation opr l r) = True"
| "isBinaryOperation _ = False"

text \<open>
  \<open>isValidVariableName\<close> of constructor.ts: not a reserved word, and matching
  \<open>/^[a-zA-Z]\w*$/\<close>, where \<open>\w\<close> is a letter, a digit or the underscore.
\<close>

definition isLetter :: "char \<Rightarrow> bool" where
  "isLetter c = ((CHR ''a'' \<le> c \<and> c \<le> CHR ''z'') \<or> (CHR ''A'' \<le> c \<and> c \<le> CHR ''Z''))"

definition isWordChar :: "char \<Rightarrow> bool" where
  "isWordChar c = (isLetter c \<or> (CHR ''0'' \<le> c \<and> c \<le> CHR ''9'') \<or> c = CHR ''_'')"

definition reservedWords :: "string list" where
  "reservedWords = [''true'', ''false'', ''&'', ''|'', ''!'', ''=>'', ''<=>'', ''('', '')'']"

fun isValidVariableName :: "string \<Rightarrow> bool" where
  "isValidVariableName [] = False"
| "isValidVariableName (c # cs) =
     ((c # cs) \<notin> set reservedWords \<and> isLetter c \<and> list_all isWordChar cs)"


section \<open>Transformation rules (rules.ts)\<close>

text \<open>One constructor for each rule class, in the order of the catalogue.\<close>

datatype TransformationRule =
    CommutativityAND | CommutativityOR | CommutativityIFF
  | CommutativityANDAND | CommutativityOROR
  | DoubleNegation
  | ExcludedMiddle | Contradiction
  | DeMorganAND | DeMorganOR | DeMorganANDReverse | DeMorganORReverse
  | ImplicationElimination | ImplicationEliminationReverse | Contrapositive
  | DistributivityAND | DistributivityOR
  | DistributivityANDReverse | DistributivityORReverse
  | Idempotence | IdempotenceReverseOR | IdempotenceReverseAND
  | Equivalence | EquivalenceReverse
  | SimplificationWithTrue | SimplificationWithFalse
  | Simplification1AndReverse | Simplification1OrReverse
  | Simplification1True | Simplification1False
  | Simplification2Or | Simplification2And

definition ALL_TRANSFORMATION_RULES :: "TransformationRule list" where
  "ALL_TRANSFORMATION_RULES =
    [CommutativityAND, CommutativityOR, CommutativityIFF,
     CommutativityANDAND, CommutativityOROR,
     DoubleNegation,
     ExcludedMiddle, Contradiction,
     DeMorganAND, DeMorganOR, DeMorganANDReverse, DeMorganORReverse,
     ImplicationElimination, ImplicationEliminationReverse, Contrapositive,
     DistributivityAND, DistributivityOR,
     DistributivityANDReverse, DistributivityORReverse,
     Idempotence, IdempotenceReverseOR, IdempotenceReverseAND,
     Equivalence, EquivalenceReverse,
     SimplificationWithTrue, SimplificationWithFalse,
     Simplification1AndReverse, Simplification1OrReverse,
     Simplification1True, Simplification1False,
     Simplification2Or, Simplification2And]"

fun canApply :: "TransformationRule \<Rightarrow> expr \<Rightarrow> bool" where
  "canApply CommutativityAND e = isConjunction e"
| "canApply CommutativityOR e = isDisjunction e"
| "canApply CommutativityIFF e = isBiconditional e"
| "canApply DoubleNegation e =
     (case e of Negation x \<Rightarrow> isNegation x | _ \<Rightarrow> False)"
| "canApply ExcludedMiddle e =
     (case e of
        BinaryOperation opr l r \<Rightarrow>
          if opr \<noteq> OR then False
          else (case r of
                  Negation x \<Rightarrow> equals l x
                | _ \<Rightarrow> (case l of Negation y \<Rightarrow> equals r y | _ \<Rightarrow> False))
      | _ \<Rightarrow> False)"
| "canApply Contradiction e =
     (case e of
        BinaryOperation opr l r \<Rightarrow>
          if opr \<noteq> AND then False
          else (case r of
                  Negation x \<Rightarrow> equals l x
                | _ \<Rightarrow> (case l of Negation y \<Rightarrow> equals r y | _ \<Rightarrow> False))
      | _ \<Rightarrow> False)"
| "canApply DeMorganAND e =
     (case e of Negation x \<Rightarrow> isConjunction x | _ \<Rightarrow> False)"
| "canApply DeMorganOR e =
     (case e of Negation x \<Rightarrow> isDisjunction x | _ \<Rightarrow> False)"
| "canApply DeMorganANDReverse e =
     (case e of
        BinaryOperation opr l r \<Rightarrow> opr = OR \<and> isNegation l \<and> isNegation r
      | _ \<Rightarrow> False)"
| "canApply DeMorganORReverse e =
     (case e of
        BinaryOperation opr l r \<Rightarrow> opr = AND \<and> isNegation l \<and> isNegation r
      | _ \<Rightarrow> False)"
| "canApply ImplicationElimination e = isImplication e"
| "canApply ImplicationEliminationReverse e =
     (case e of BinaryOperation opr l r \<Rightarrow> opr = OR \<and> isNegation l | _ \<Rightarrow> False)"
| "canApply DistributivityAND e =
     (case e of BinaryOperation opr l r \<Rightarrow> opr = AND \<and> isDisjunction r | _ \<Rightarrow> False)"
| "canApply DistributivityOR e =
     (case e of BinaryOperation opr l r \<Rightarrow> opr = OR \<and> isConjunction r | _ \<Rightarrow> False)"
| "canApply CommutativityANDAND e =
     (case e of BinaryOperation opr l r \<Rightarrow> opr = AND \<and> isConjunction l | _ \<Rightarrow> False)"
| "canApply CommutativityOROR e =
     (case e of BinaryOperation opr l r \<Rightarrow> opr = OR \<and> isDisjunction l | _ \<Rightarrow> False)"
| "canApply DistributivityANDReverse e =
     (case e of
        BinaryOperation opr l r \<Rightarrow>
          if opr \<noteq> OR then False
          else isConjunction l \<and> isConjunction r \<and>
               (case l of
                  BinaryOperation lo ll lr \<Rightarrow>
                    (case r of BinaryOperation ro rl rr \<Rightarrow> equals ll rl | _ \<Rightarrow> False)
                | _ \<Rightarrow> False)
      | _ \<Rightarrow> False)"
| "canApply DistributivityORReverse e =
     (case e of
        BinaryOperation opr l r \<Rightarrow>
          if opr \<noteq> AND then False
          else isDisjunction l \<and> isDisjunction r \<and>
               (case l of
                  BinaryOperation lo ll lr \<Rightarrow>
                    (case r of BinaryOperation ro rl rr \<Rightarrow> equals ll rl | _ \<Rightarrow> False)
                | _ \<Rightarrow> False)
      | _ \<Rightarrow> False)"
| "canApply Contrapositive e =
     (case e of
        BinaryOperation opr l r \<Rightarrow>
          if opr \<noteq> IMP then False else \<not> (isNegation l \<and> isNegation r)
      | _ \<Rightarrow> False)"
| "canApply Idempotence e =
     ((isConjunction e \<or> isDisjunction e) \<and>
      (case e of BinaryOperation opr l r \<Rightarrow> equals l r | _ \<Rightarrow> False))"
| "canApply IdempotenceReverseOR e =
     (\<not> (isDisjunction e \<and> (case e of BinaryOperation opr l r \<Rightarrow> equals l r | _ \<Rightarrow> False)) \<and>
      \<not> (isConjunction e \<and> (case e of BinaryOperation opr l r \<Rightarrow> equals l r | _ \<Rightarrow> False)))"
| "canApply IdempotenceReverseAND e =
     (\<not> (isDisjunction e \<and> (case e of BinaryOperation opr l r \<Rightarrow> equals l r | _ \<Rightarrow> False)) \<and>
      \<not> (isConjunction e \<and> (case e of BinaryOperation opr l r \<Rightarrow> equals l r | _ \<Rightarrow> False)))"
| "canApply Equivalence e = isBiconditional e"
| "canApply EquivalenceReverse e =
     (case e of
        BinaryOperation opr l r \<Rightarrow>
          if opr \<noteq> AND then False
          else isImplication l \<and> isImplication r \<and>
               (case l of
                  BinaryOperation lo ll lr \<Rightarrow>
                    (case r of
                       BinaryOperation ro rl rr \<Rightarrow> equals ll rr \<and> equals lr rl
                     | _ \<Rightarrow> False)
                | _ \<Rightarrow> False)
      | _ \<Rightarrow> False)"
| "canApply SimplificationWithTrue e =
     (case e of
        BinaryOperation opr l r \<Rightarrow>
          if opr = AND then isTrueConstant l \<or> isTrueConstant r
          else if opr = OR then isFalseConstant l \<or> isFalseConstant r
          else False
      | _ \<Rightarrow> False)"
| "canApply SimplificationWithFalse e =
     (case e of
        BinaryOperation opr l r \<Rightarrow>
          if opr = OR then isTrueConstant l \<or> isTrueConstant r
          else if opr = AND then isFalseConstant l \<or> isFalseConstant r
          else False
      | _ \<Rightarrow> False)"
| "canApply Simplification1AndReverse e =
     (case e of
        BinaryOperation opr l r \<Rightarrow>
          \<not> (opr = AND \<and> (isTrueConstant l \<or> isTrueConstant r)) \<and>
          \<not> (opr = OR \<and> (isFalseConstant l \<or> isFalseConstant r))
      | _ \<Rightarrow> True)"
| "canApply Simplification1OrReverse e =
     (case e of
        BinaryOperation opr l r \<Rightarrow>
          \<not> (opr = AND \<and> (isTrueConstant l \<or> isTrueConstant r)) \<and>
          \<not> (opr = OR \<and> (isFalseConstant l \<or> isFalseConstant r))
      | _ \<Rightarrow> True)"
| "canApply Simplification1True e =
     (case e of
        BinaryOperation opr l r \<Rightarrow> opr = OR \<and> (isTrueConstant l \<or> isTrueConstant r)
      | _ \<Rightarrow> False)"
| "canApply Simplification1False e =
     (case e of
        BinaryOperation opr l r \<Rightarrow> opr = AND \<and> (isFalseConstant l \<or> isFalseConstant r)
      | _ \<Rightarrow> False)"
| "canApply Simplification2Or e =
     (case e of
        BinaryOperation opr l r \<Rightarrow>
          if opr \<noteq> OR then False
          else (case r of
                  BinaryOperation ro rl rr \<Rightarrow>
                    if ro = AND then equals l rl \<or> equals l rr
                    else (case l of
                            BinaryOperation lo ll lr \<Rightarrow>
                              if lo = AND then equals r ll \<or> equals r lr else False
                          | _ \<Rightarrow> False)
                | _ \<Rightarrow>
                    (case l of
                       BinaryOperation lo ll lr \<Rightarrow>
                         if lo = AND then equals r ll \<or> equals r lr else False
                     | _ \<Rightarrow> False))
      | _ \<Rightarrow> False)"
| "canApply Simplification2And e =
     (case e of
        BinaryOperation opr l r \<Rightarrow>
          if opr \<noteq> AND then False
          else (case r of
                  BinaryOperation ro rl rr \<Rightarrow>
                    if ro = OR then equals l rl \<or> equals l rr
                    else (case l of
                            BinaryOperation lo ll lr \<Rightarrow>
                              if lo = OR then equals r ll \<or> equals r lr else False
                          | _ \<Rightarrow> False)
                | _ \<Rightarrow>
                    (case l of
                       BinaryOperation lo ll lr \<Rightarrow>
                         if lo = OR then equals r ll \<or> equals r lr else False
                     | _ \<Rightarrow> False))
      | _ \<Rightarrow> False)"

text \<open>
  The outcome of \<open>apply\<close>. Besides throwing and returning an expression there is a third
  one: some \<open>apply\<close> methods cast a child to a binary class without a test and read its
  \<open>left\<close> and \<open>right\<close> fields; on a child that has no such field the read gives
  \<open>undefined\<close>, nothing is thrown, and the object returned has \<open>undefined\<close> where a
  subexpression belongs. \<open>leftOf\<close> and \<open>rightOf\<close> are these field reads and \<open>newBinary\<close>
  is the constructor call on their results.
\<close>

datatype applied = Threw error | Returned expr | ReturnedMalformed

fun leftOf :: "expr \<Rightarrow> expr option" where
  "leftOf (BinaryOperation opr l r) = Some l"
| "leftOf _ = None"

fun rightOf :: "expr \<Rightarrow> expr option" where
  "rightOf (BinaryOperation opr l r) = Some r"
| "rightOf _ = None"

fun newBinary :: "binop \<Rightarrow> expr option \<Rightarrow> expr option \<Rightarrow> expr option" where
  "newBinary opr (Some l) (Some r) = Some (BinaryOperation opr l r)"
| "newBinary opr _ _ = None"

fun returned :: "expr option \<Rightarrow> applied" where
  "returned (Some e) = Returned e"
| "returned None = ReturnedMalformed"

fun apply_rule :: "TransformationRule \<Rightarrow> expr \<Rightarrow> applied" where
  "apply_rule CommutativityAND e =
     (case e of
        BinaryOperation opr l r \<Rightarrow>
          if opr = AND then Returned (Conjunction r l) else Threw RuleViolation
      | _ \<Rightarrow> Threw RuleViolation)"
| "apply_rule CommutativityOR e =
     (case e of
        BinaryOperation opr l r \<Rightarrow>
          if opr = OR then Returned (Disjunction r l) else Threw RuleViolation
      | _ \<Rightarrow> Threw RuleViolation)"
| "apply_rule CommutativityIFF e =
     (case e of
        BinaryOperation opr l r \<Rightarrow>
          if opr = IFF then Returned (Biconditional r l) else Threw RuleViolation
      | _ \<Rightarrow> Threw RuleViolation)"
| "apply_rule DoubleNegation e =
     (case e of
        Negation x \<Rightarrow> (case x of Negation y \<Rightarrow> Returned y | _ \<Rightarrow> Threw RuleViolation)
      | _ \<Rightarrow> Threw RuleViolation)"
| "apply_rule ExcludedMiddle e =
     (if \<not> canApply ExcludedMiddle e then Threw RuleViolation else Returned TrueConstant)"
| "apply_rule Contradiction e =
     (if \<not> canApply Contradiction e then Threw RuleViolation else Returned FalseConstant)"
| "apply_rule DeMorganAND e =
     (case e of
        Negation x \<Rightarrow>
          (case x of
             BinaryOperation opr l r \<Rightarrow>
               if opr = AND then Returned (Disjunction (Negation l) (Negation r))
               else Threw RuleViolation
           | _ \<Rightarrow> Threw RuleViolation)
      | _ \<Rightarrow> Threw RuleViolation)"
| "apply_rule DeMorganOR e =
     (case e of
        Negation x \<Rightarrow>
          (case x of
             BinaryOperation opr l r \<Rightarrow>
               if opr = OR then Returned (Conjunction (Negation l) (Negation r))
               else Threw RuleViolation
           | _ \<Rightarrow> Threw RuleViolation)
      | _ \<Rightarrow> Threw RuleViolation)"
| "apply_rule DeMorganANDReverse e =
     (case e of
        BinaryOperation opr l r \<Rightarrow>
          if opr \<noteq> OR then Threw RuleViolation
          else (case l of
                  Negation x \<Rightarrow>
                    (case r of
                       Negation y \<Rightarrow> Returned (Negation (Conjunction x y))
                     | _ \<Rightarrow> Threw RuleViolation)
                | _ \<Rightarrow> Threw RuleViolation)
      | _ \<Rightarrow> Threw RuleViolation)"
| "apply_rule DeMorganORReverse e =
     (case e of
        BinaryOperation opr l r \<Rightarrow>
          if opr \<noteq> AND then Threw RuleViolation
          else (case l of
                  Negation x \<Rightarrow>
                    (case r of
                       Negation y \<Rightarrow> Returned (Negation (Disjunction x y))
                     | _ \<Rightarrow> Threw RuleViolation)
                | _ \<Rightarrow> Threw RuleViolation)
      | _ \<Rightarrow> Threw RuleViolation)"
| "apply_rule ImplicationElimination e =
     (case e of
        BinaryOperation opr l r \<Rightarrow>
          if opr = IMP then Returned (Disjunction (Negation l) r) else Threw RuleViolation
      | _ \<Rightarrow> Threw RuleViolation)"
| "apply_rule ImplicationEliminationReverse e =
     (case e of
        BinaryOperation opr l r \<Rightarrow>
          if opr \<noteq> OR then Threw RuleViolation
          else (case l of
                  Negation x \<Rightarrow> Returned (Implication x r)
                | _ \<Rightarrow> Threw RuleViolation)
      | _ \<Rightarrow> Threw RuleViolation)"
| "apply_rule DistributivityAND e =
     (case e of
        BinaryOperation opr p qr \<Rightarrow>
          if opr \<noteq> AND then Threw RuleViolation
          else (case qr of
                  BinaryOperation ro q r \<Rightarrow>
                    if ro = OR then Returned (Disjunction (Conjunction p q) (Conjunction p r))
                    else Threw RuleViolation
                | _ \<Rightarrow> Threw RuleViolation)
      | _ \<Rightarrow> Threw RuleViolation)"
| "apply_rule DistributivityOR e =
     (case e of
        BinaryOperation opr p qr \<Rightarrow>
          if opr \<noteq> OR then Threw RuleViolation
          else (case qr of
                  BinaryOperation ro q r \<Rightarrow>
                    if ro = AND then Returned (Conjunction (Disjunction p q) (Disjunction p r))
                    else Threw RuleViolation
                | _ \<Rightarrow> Threw RuleViolation)
      | _ \<Rightarrow> Threw RuleViolation)"
| "apply_rule CommutativityANDAND e =
     (case e of
        BinaryOperation opr l r \<Rightarrow>
          if opr \<noteq> AND then Threw RuleViolation
          else (case l of
                  BinaryOperation lo ll lr \<Rightarrow>
                    if lo = AND then Returned (Conjunction lr (Conjunction ll r))
                    else Threw RuleViolation
                | _ \<Rightarrow> Threw RuleViolation)
      | _ \<Rightarrow> Threw RuleViolation)"
| "apply_rule CommutativityOROR e =
     (case e of
        BinaryOperation opr l r \<Rightarrow>
          if opr \<noteq> OR then Threw RuleViolation
          else (case l of
                  BinaryOperation lo ll lr \<Rightarrow>
                    if lo = OR then Returned (Disjunction lr (Disjunction ll r))
                    else Threw RuleViolation
                | _ \<Rightarrow> Threw RuleViolation)
      | _ \<Rightarrow> Threw RuleViolation)"
| "apply_rule DistributivityANDReverse e =
     (case e of
        BinaryOperation opr l r \<Rightarrow>
          if opr \<noteq> OR then Threw RuleViolation
          else returned (newBinary AND (leftOf l) (newBinary OR (rightOf l) (rightOf r)))
      | _ \<Rightarrow> Threw RuleViolation)"
| "apply_rule DistributivityORReverse e =
     (case e of
        BinaryOperation opr l r \<Rightarrow>
          if opr \<noteq> AND then Threw RuleViolation
          else returned (newBinary OR (leftOf l) (newBinary AND (rightOf l) (rightOf r)))
      | _ \<Rightarrow> Threw RuleViolation)"
| "apply_rule Contrapositive e =
     (case e of
        BinaryOperation opr l r \<Rightarrow>
          if opr \<noteq> IMP then Threw RuleViolation
          else Returned (Implication (Negation r) (Negation l))
      | _ \<Rightarrow> Threw RuleViolation)"
| "apply_rule Idempotence e =
     (case e of
        BinaryOperation opr l r \<Rightarrow>
          if \<not> equals l r then Threw RuleViolation else Returned l
      | _ \<Rightarrow> Threw RuleViolation)"
| "apply_rule IdempotenceReverseOR e = Returned (Disjunction e (clone e))"
| "apply_rule IdempotenceReverseAND e = Returned (Conjunction e (clone e))"
| "apply_rule Equivalence e =
     (case e of
        BinaryOperation opr l r \<Rightarrow>
          if opr \<noteq> IFF then Threw RuleViolation
          else Returned (Conjunction (Implication l r) (Implication r l))
      | _ \<Rightarrow> Threw RuleViolation)"
| "apply_rule EquivalenceReverse e =
     (case e of
        BinaryOperation opr l r \<Rightarrow>
          if opr \<noteq> AND then Threw RuleViolation
          else returned (newBinary IFF (leftOf l) (rightOf l))
      | _ \<Rightarrow> Threw RuleViolation)"
| "apply_rule SimplificationWithTrue e =
     (case e of
        BinaryOperation opr l r \<Rightarrow>
          if opr = AND \<and> isTrueConstant l then Returned r
          else if opr = AND \<and> isTrueConstant r then Returned l
          else if opr = OR \<and> isFalseConstant l then Returned r
          else if opr = OR \<and> isFalseConstant r then Returned l
          else Threw RuleViolation
      | _ \<Rightarrow> Threw RuleViolation)"
| "apply_rule SimplificationWithFalse e =
     (if isDisjunction e then Returned TrueConstant
      else if isConjunction e then Returned FalseConstant
      else Threw RuleViolation)"
| "apply_rule Simplification1AndReverse e = Returned (Conjunction e TrueConstant)"
| "apply_rule Simplification1OrReverse e = Returned (Disjunction e FalseConstant)"
| "apply_rule Simplification1True e = Returned TrueConstant"
| "apply_rule Simplification1False e = Returned FalseConstant"
| "apply_rule Simplification2Or e =
     (case e of
        BinaryOperation opr l r \<Rightarrow>
          if opr \<noteq> OR then Threw RuleViolation
          else if isConjunction r then Returned l else Returned r
      | _ \<Rightarrow> Threw RuleViolation)"
| "apply_rule Simplification2And e =
     (case e of
        BinaryOperation opr l r \<Rightarrow>
          if opr \<noteq> AND then Threw RuleViolation
          else if isDisjunction r then Returned l else Returned r
      | _ \<Rightarrow> Threw RuleViolation)"


section \<open>Truth tables (truthTable.ts)\<close>

definition MAX_TRUTH_TABLE_VARIABLES :: nat where
  "MAX_TRUTH_TABLE_VARIABLES = 15"

text \<open>\<open>validateVariableCount\<close> returns the fields \<open>valid\<close> and \<open>variableCount\<close>.\<close>

definition validateVariableCount :: "expr \<Rightarrow> bool \<times> nat" where
  "validateVariableCount e =
     (let variableCount = length (getVariables e)
      in if variableCount > MAX_TRUTH_TABLE_VARIABLES then (False, variableCount)
         else (True, variableCount))"

text \<open>
  A row. The field \<open>result\<close> holds what \<open>evaluate\<close> returned, or \<open>false\<close> from the
  \<open>catch\<close> branch.
\<close>

record TruthTableRow =
  assignment :: Assignment
  result :: jsvalue

record TruthTable =
  variables :: "string list"
  rows :: "TruthTableRow list"
  expression :: expr

text \<open>
  The store \<open>assignment[key] = value\<close> of a boolean on a plain object. It creates or
  overwrites the own property, except under the key \<open>__proto__\<close>: that key is the
  accessor inherited from \<open>Object.prototype\<close>, whose setter ignores a value that is not
  an object, so nothing is stored.
\<close>

definition storeProperty :: "Assignment \<Rightarrow> string \<Rightarrow> bool \<Rightarrow> Assignment" where
  "storeProperty a key v = (if key = ''__proto__'' then a else a(key \<mapsto> v))"

text \<open>
  The inner loop of \<open>generateTruthTable\<close>: for \<open>j\<close> from 0 to \<open>variables.length - 1\<close>
  it stores \<open>Boolean((i >> bitPosition) & 1)\<close> under \<open>variables[j]\<close>, starting from
  the empty object.
\<close>

definition rowAssignment :: "string list \<Rightarrow> nat \<Rightarrow> Assignment" where
  "rowAssignment vs i =
     fold (\<lambda>j a. storeProperty a (vs ! j) (and (drop_bit (length vs - 1 - j) i) 1 \<noteq> 0))
          [0 ..< length vs] Map.empty"

text \<open>
  One row: the evaluation sits in a \<open>try\<close> block whose \<open>catch\<close> records \<open>false\<close>.
\<close>

definition tableRow :: "expr \<Rightarrow> string list \<Rightarrow> nat \<Rightarrow> TruthTableRow" where
  "tableRow e vs i =
     (let a = rowAssignment vs i
      in case evaluate e a of
           Inr res \<Rightarrow> \<lparr>assignment = a, result = res\<rparr>
         | Inl err \<Rightarrow> \<lparr>assignment = a, result = JSBoolean False\<rparr>)"

text \<open>
  \<open>Array.from(set).sort()\<close> orders strings by their code units, shorter prefix first:
  the lexicographic order on character lists.
\<close>

definition generateTruthTable :: "expr \<Rightarrow> error + TruthTable" where
  "generateTruthTable e =
     (let vs = sort (getVariables e)
      in if \<not> fst (validateVariableCount e) then Inl TruthTableTooLarge
         else let numRows = 2 ^ length vs
              in Inr \<lparr>variables = vs,
                      rows = map (tableRow e vs) [0 ..< numRows],
                      expression = e\<rparr>)"


section \<open>Proof search (proofSystem.ts)\<close>

text \<open>
  A transformation is the triple \<open>newExpression\<close>, \<open>rule\<close>, \<open>appliedToSubexpression\<close>.
\<close>

type_synonym Transformation = "expr \<times> TransformationRule \<times> expr"

text \<open>
  The budgets \<open>maxDepth\<close>, \<open>maxStates\<close> and \<open>maxExpressionLength\<close> are JavaScript
  numbers: a finite number, which need not be whole, or \<open>Infinity\<close>, \<open>-Infinity\<close> or
  \<open>NaN\<close>. The counters and lengths that the code compares them with are whole numbers.
  The only operations on a budget are the comparisons \<open>i <= x\<close>, \<open>i >= x\<close> and \<open>i > x\<close>
  with a whole number \<open>i\<close>, every one of them false for \<open>NaN\<close>, and the difference
  \<open>x - i\<close>, which only \<open>getSubexpressionTransformations\<close> forms, for the budget of an
  operand. A finite number is taken as a real here and the difference is exact, where the
  code rounds it to the nearest representable number. The lists returned are the same:
  rounding is monotone and keeps whole numbers below \<open>2^53\<close>, so a length within the exact
  difference is within the rounded one; and what passes the test of an operand only by
  rounding is rejected by the test on the whole rebuilt expression, which compares with
  the budget that the caller gave.
\<close>

datatype number = Finite real | Infinity | MinusInfinity | NaN

fun numLe :: "int \<Rightarrow> number \<Rightarrow> bool" where
  "numLe i (Finite x) = (of_int i \<le> x)"
| "numLe i Infinity = True"
| "numLe i MinusInfinity = False"
| "numLe i NaN = False"

fun numGe :: "int \<Rightarrow> number \<Rightarrow> bool" where
  "numGe i (Finite x) = (of_int i \<ge> x)"
| "numGe i Infinity = False"
| "numGe i MinusInfinity = True"
| "numGe i NaN = False"

fun numGt :: "int \<Rightarrow> number \<Rightarrow> bool" where
  "numGt i (Finite x) = (of_int i > x)"
| "numGt i Infinity = False"
| "numGt i MinusInfinity = True"
| "numGt i NaN = False"

fun numSub :: "number \<Rightarrow> int \<Rightarrow> number" where
  "numSub (Finite x) i = Finite (x - of_int i)"
| "numSub Infinity i = Infinity"
| "numSub MinusInfinity i = MinusInfinity"
| "numSub NaN i = NaN"

text \<open>
  The loop over the rules at the root. A rule that throws is skipped by the \<open>catch\<close>;
  so is one whose result has an \<open>undefined\<close> child, since \<open>getLength\<close> throws on it
  inside the \<open>try\<close> block.
\<close>

fun rootTransformations ::
  "expr \<Rightarrow> TransformationRule list \<Rightarrow> number \<Rightarrow> Transformation list" where
  "rootTransformations e [] maxLength = []"
| "rootTransformations e (rule # rs) maxLength =
     (if canApply rule e
      then (case apply_rule rule e of
              Returned newExpression \<Rightarrow>
                if numLe (getLength newExpression) maxLength
                then (newExpression, rule, e) # rootTransformations e rs maxLength
                else rootTransformations e rs maxLength
            | _ \<Rightarrow> rootTransformations e rs maxLength)
      else rootTransformations e rs maxLength)"

text \<open>Rebuilding the parent around a rewritten child, with the length filter.\<close>

definition liftNegation :: "number \<Rightarrow> Transformation list \<Rightarrow> Transformation list" where
  "liftNegation maxLength ts =
     filter (\<lambda>(newExpression, rule, sub). numLe (getLength newExpression) maxLength)
            (map (\<lambda>(newInner, rule, sub). (Negation newInner, rule, sub)) ts)"

definition liftLeft ::
  "binop \<Rightarrow> expr \<Rightarrow> number \<Rightarrow> Transformation list \<Rightarrow> Transformation list" where
  "liftLeft opr r maxLength ts =
     filter (\<lambda>(newExpression, rule, sub). numLe (getLength newExpression) maxLength)
            (map (\<lambda>(newLeft, rule, sub). (BinaryOperation opr newLeft r, rule, sub)) ts)"

definition liftRight ::
  "binop \<Rightarrow> expr \<Rightarrow> number \<Rightarrow> Transformation list \<Rightarrow> Transformation list" where
  "liftRight opr l maxLength ts =
     filter (\<lambda>(newExpression, rule, sub). numLe (getLength newExpression) maxLength)
            (map (\<lambda>(newRight, rule, sub). (BinaryOperation opr l newRight, rule, sub)) ts)"

text \<open>
  \<open>getAllPossibleTransformations\<close> and \<open>getSubexpressionTransformations\<close> call each
  other; the second is inlined in the first here, one equation for each shape of the
  expression.
\<close>

fun getAllPossibleTransformations ::
  "expr \<Rightarrow> TransformationRule list \<Rightarrow> number \<Rightarrow> Transformation list" where
  "getAllPossibleTransformations (Negation x) rules maxLength =
     rootTransformations (Negation x) rules maxLength @
     liftNegation maxLength (getAllPossibleTransformations x rules (numSub maxLength 1))"
| "getAllPossibleTransformations (BinaryOperation opr l r) rules maxLength =
     rootTransformations (BinaryOperation opr l r) rules maxLength @
     (liftLeft opr r maxLength
        (getAllPossibleTransformations l rules (numSub (numSub maxLength (getLength r)) 1)) @
      liftRight opr l maxLength
        (getAllPossibleTransformations r rules (numSub (numSub maxLength (getLength l)) 1)))"
| "getAllPossibleTransformations e rules maxLength = rootTransformations e rules maxLength"

datatype ProofNode =
  ProofNode (node_expression: expr) (node_parent: "ProofNode option")
            (node_rule: "TransformationRule option") (node_applied: "expr option")
            (node_depth: int)

record ProofStep =
  step_expression :: expr
  step_rule :: "TransformationRule option"
  step_applied :: "expr option"
  stepNumber :: int

record TransformationProof =
  startExpression :: expr
  targetExpression :: expr
  steps :: "ProofStep list"
  found :: bool
  searchDepth :: int
  totalStatesExplored :: int

text \<open>
  The options. Every field is optional; \<open>onProgress\<close> is a callback whose return value
  is discarded, so all it can do is act on the caller's own state, the type \<open>'w\<close>.
\<close>

record 'w ProofSearchOptions =
  maxDepth :: "number option"
  maxStates :: "number option"
  maxExpressionLength :: "number option"
  rules :: "TransformationRule list option"
  onProgress :: "(int \<Rightarrow> int \<Rightarrow> 'w \<Rightarrow> 'w) option"

text \<open>\<open>reconstructProof\<close>: the nodes from the start to the final one, then numbered.\<close>

fun nodesFromStart :: "ProofNode \<Rightarrow> ProofNode list" where
  "nodesFromStart (ProofNode e p r a d) =
     (case p of None \<Rightarrow> [] | Some n \<Rightarrow> nodesFromStart n) @ [ProofNode e p r a d]"

definition reconstructProof :: "ProofNode \<Rightarrow> ProofStep list" where
  "reconstructProof finalNode =
     (let nodes = nodesFromStart finalNode
      in map (\<lambda>i. \<lparr>step_expression = node_expression (nodes ! i),
                   step_rule = node_rule (nodes ! i),
                   step_applied = node_applied (nodes ! i),
                   stepNumber = int i + 1\<rparr>)
             [0 ..< length nodes])"

text \<open>
  The \<open>for\<close> loop over the transformations of the current node. It either returns the
  node that equals the target (\<open>Inl\<close>) or ends with the new queue and visited set.
\<close>

fun visitTransformations ::
  "expr \<Rightarrow> ProofNode \<Rightarrow> Transformation list \<Rightarrow> ProofNode list \<Rightarrow> string set
   \<Rightarrow> ProofNode + (ProofNode list \<times> string set)" where
  "visitTransformations target current [] queue visited = Inr (queue, visited)"
| "visitTransformations target current ((newExpression, rule, sub) # ts) queue visited =
     (let hash = getHash newExpression
      in if hash \<in> visited then visitTransformations target current ts queue visited
         else let visited' = insert hash visited;
                  newNode = ProofNode newExpression (Some current) (Some rule) (Some sub)
                                      (node_depth current + 1)
              in if equals newExpression target then Inl newNode
                 else visitTransformations target current ts (queue @ [newNode]) visited')"

text \<open>
  The \<open>while\<close> loop. Nothing in the code bounds the number of its rounds when the
  budgets do not, so it is a partial function: \<open>None\<close> is the loop that never ends.
  When it ends, the result is the found node or nothing, with the final \<open>statesExplored\<close>
  and \<open>maxDepthReached\<close>, and the caller's state after the callbacks.
\<close>

partial_function (option) searchLoop ::
  "expr \<Rightarrow> number \<Rightarrow> number \<Rightarrow> number \<Rightarrow> TransformationRule list
   \<Rightarrow> (int \<Rightarrow> int \<Rightarrow> 'w \<Rightarrow> 'w) option
   \<Rightarrow> ProofNode list \<Rightarrow> string set \<Rightarrow> int \<Rightarrow> int \<Rightarrow> 'w
   \<Rightarrow> ((ProofNode option \<times> int \<times> int) \<times> 'w) option" where
  "searchLoop target maxD maxS maxL rs cb queue visited statesExplored maxDepthReached w =
     (case queue of
        [] \<Rightarrow> Some ((None, statesExplored, maxDepthReached), w)
      | current # rest \<Rightarrow>
          let explored = statesExplored + 1;
              w' = (case cb of
                      None \<Rightarrow> w
                    | Some f \<Rightarrow>
                        (if explored mod 100 = 0 then f explored (node_depth current) w
                         else w))
          in if numGe explored maxS then Some ((None, explored, maxDepthReached), w')
             else if numGe (node_depth current) maxD
             then searchLoop target maxD maxS maxL rs cb rest visited explored maxDepthReached w'
             else let reached = max maxDepthReached (node_depth current)
                  in (case visitTransformations target current
                             (getAllPossibleTransformations (node_expression current) rs maxL)
                             rest visited of
                        Inl newNode \<Rightarrow> Some ((Some newNode, explored, reached), w')
                      | Inr (queue', visited') \<Rightarrow>
                          searchLoop target maxD maxS maxL rs cb queue' visited' explored
                            reached w'))"

definition findTransformationProof ::
  "expr \<Rightarrow> expr \<Rightarrow> 'w ProofSearchOptions \<Rightarrow> 'w \<Rightarrow> (TransformationProof \<times> 'w) option" where
  "findTransformationProof start target options w =
     (let maxD = (case maxDepth options of None \<Rightarrow> Finite 15 | Some d \<Rightarrow> d);
          maxS = (case maxStates options of None \<Rightarrow> Finite 10000 | Some n \<Rightarrow> n);
          maxL = (case maxExpressionLength options of None \<Rightarrow> Finite 15 | Some n \<Rightarrow> n);
          rs = (case rules options of None \<Rightarrow> ALL_TRANSFORMATION_RULES | Some l \<Rightarrow> l)
      in if equals start target
         then Some (\<lparr>startExpression = start, targetExpression = target,
                 steps = [\<lparr>step_expression = start, step_rule = None, step_applied = None,
                           stepNumber = 1\<rparr>],
                 found = True, searchDepth = 0, totalStatesExplored = 1\<rparr>, w)
         else (case searchLoop target maxD maxS maxL rs (onProgress options)
                      [ProofNode start None None None 0] {getHash start} 0 0 w of
                 None \<Rightarrow> None
               | Some ((Some newNode, explored, reached), w') \<Rightarrow>
                   Some (\<lparr>startExpression = start, targetExpression = target,
                     steps = reconstructProof newNode,
                     found = True, searchDepth = node_depth newNode,
                     totalStatesExplored = explored\<rparr>, w')
               | Some ((None, explored, reached), w') \<Rightarrow>
                   Some (\<lparr>startExpression = start, targetExpression = target,
                     steps = [],
                     found = False, searchDepth = reached,
                     totalStatesExplored = explored\<rparr>, w')))"


section \<open>The parenthesizer (parser.ts)\<close>

text \<open>
  The tokenizer \<open>parseExpression\<close> of parser.ts works by regular-expression replacement
  and splitting; it is not part of this development. Everything below starts from its
  result, the token list: for \<open>a & b & c\<close> the five tokens \<open>a\<close>, \<open>&\<close>, \<open>b\<close>, \<open>&\<close>, \<open>c\<close>.
  Every \<open>Error\<close> thrown on the way reaches the caller as an \<open>ExpressionParseError\<close>.
\<close>

type_synonym Token = string

definition stepDepth :: "Token \<Rightarrow> int \<Rightarrow> int" where
  "stepDepth t depth = (if t = ''('' then depth + 1 else if t = '')'' then depth - 1 else depth)"

fun isFullyParenthesizedLoop :: "int \<Rightarrow> Token list \<Rightarrow> bool" where
  "isFullyParenthesizedLoop depth [] = True"
| "isFullyParenthesizedLoop depth (t # ts) =
     (if stepDepth t depth = 0 then False else isFullyParenthesizedLoop (stepDepth t depth) ts)"

definition isFullyParenthesized :: "Token list \<Rightarrow> bool" where
  "isFullyParenthesized tokens =
     (if length tokens < 3 then False
      else if hd tokens \<noteq> ''('' \<or> last tokens \<noteq> '')'' then False
      else isFullyParenthesizedLoop 0 (butlast tokens))"

fun validateParenthesesLoop :: "int \<Rightarrow> Token list \<Rightarrow> error + int" where
  "validateParenthesesLoop depth [] = Inr depth"
| "validateParenthesesLoop depth (t # ts) =
     (if t = ''('' then validateParenthesesLoop (depth + 1) ts
      else if t = '')''
      then (if depth - 1 < 0 then Inl ParseError else validateParenthesesLoop (depth - 1) ts)
      else validateParenthesesLoop depth ts)"

definition validateParentheses :: "Token list \<Rightarrow> error + unit" where
  "validateParentheses tokens =
     (case validateParenthesesLoop 0 tokens of
        Inl err \<Rightarrow> Inl err
      | Inr depth \<Rightarrow> if depth \<noteq> 0 then Inl ParseError else Inr ())"

text \<open>
  \<open>addNegationParentheses\<close> walks the tokens with an index; here the argument is the
  rest of the tokens from that index on. \<open>copyGroup\<close> is the inner loop that copies a
  parenthesized operand until the depth is back at zero; it returns the copied tokens
  and the rest.
\<close>

fun copyGroup :: "int \<Rightarrow> Token list \<Rightarrow> Token list \<times> Token list" where
  "copyGroup depth [] = ([], [])"
| "copyGroup depth (t # ts) =
     (if depth > 0
      then (case copyGroup (stepDepth t depth) ts of (copied, rest) \<Rightarrow> (t # copied, rest))
      else ([], t # ts))"

function addNegationParentheses :: "Token list \<Rightarrow> error + Token list" where
  "addNegationParentheses [] = Inr []"
| "addNegationParentheses (t # ts) =
     (if t = ''!''
      then (case ts of
              [] \<Rightarrow> Inl ParseError
            | n # ts' \<Rightarrow>
                if n = ''(''
                then (case addNegationParentheses (snd (copyGroup 1 ts')) of
                        Inl err \<Rightarrow> Inl err
                      | Inr out \<Rightarrow>
                          Inr ([''('', ''!'', ''(''] @ fst (copyGroup 1 ts') @ ['')''] @ out))
                else if n = ''!''
                then (let negationCount = length (takeWhile (\<lambda>x. x = ''!'') ts)
                      in case dropWhile (\<lambda>x. x = ''!'') ts of
                           [] \<Rightarrow> Inl ParseError
                         | operand # rest \<Rightarrow>
                             (case addNegationParentheses rest of
                                Inl err \<Rightarrow> Inl err
                              | Inr out \<Rightarrow>
                                  Inr ([''('', ''!''] @
                                       concat (replicate negationCount [''('', ''!'']) @
                                       [operand] @ replicate negationCount '')'' @
                                       ['')''] @ out)))
                else (case addNegationParentheses ts' of
                        Inl err \<Rightarrow> Inl err
                      | Inr out \<Rightarrow> Inr ([''('', ''!'', n, '')''] @ out)))
      else (case addNegationParentheses ts of
              Inl err \<Rightarrow> Inl err
            | Inr out \<Rightarrow> Inr (t # out)))"
  by pat_completeness auto
termination
proof (relation "measure length")
  have shorter: "length (snd (copyGroup depth xs)) \<le> length xs" for depth xs
  proof (induction xs arbitrary: depth)
    case Nil
    show ?case by simp
  next
    case (Cons x xs)
    from Cons [of "stepDepth x depth"] show ?case
      by (auto split: prod.splits)
  qed
  fix t :: Token and ts :: "Token list" and n ts'
  assume "ts = n # ts'"
  then show "(snd (copyGroup 1 ts'), t # ts) \<in> measure length"
    using shorter [of 1 ts'] by simp
next
  fix t :: Token and ts :: "Token list" and n ts' negationCount operand rest
  assume "dropWhile (\<lambda>x. x = ''!'') ts = operand # rest"
  then have "length (operand # rest) \<le> length ts"
    by (metis length_dropWhile_le)
  then show "(rest, t # ts) \<in> measure length" by simp
qed auto

definition isOperatorInParentheses :: "Token list \<Rightarrow> nat \<Rightarrow> bool" where
  "isOperatorInParentheses tokens operatorIndex =
     (fold stepDepth (take operatorIndex tokens) 0 > 0)"

text \<open>
  The two scans for the end of a parenthesized operand: \<open>while (i >= 0 && depth > 0)\<close>
  to the left, \<open>while (i < tokens.length && depth > 0)\<close> to the right. Both return
  the final \<open>i\<close> and \<open>depth\<close>.
\<close>

function scanLeft :: "Token list \<Rightarrow> int \<Rightarrow> int \<Rightarrow> int \<times> int" where
  "scanLeft tokens i depth =
     (if i \<ge> 0 \<and> depth > 0
      then scanLeft tokens (i - 1)
             (if tokens ! nat i = '')'' then depth + 1
              else if tokens ! nat i = ''('' then depth - 1 else depth)
      else (i, depth))"
  by pat_completeness auto
termination
  by (relation "measure (\<lambda>(tokens, i, depth). nat (i + 1))") auto

declare scanLeft.simps [simp del]

function scanRight :: "Token list \<Rightarrow> nat \<Rightarrow> int \<Rightarrow> nat \<times> int" where
  "scanRight tokens i depth =
     (if i < length tokens \<and> depth > 0
      then scanRight tokens (i + 1) (stepDepth (tokens ! i) depth)
      else (i, depth))"
  by pat_completeness auto
termination
  by (relation "measure (\<lambda>(tokens, i, depth). length tokens - i)") auto

declare scanRight.simps [simp del]

definition findLeftOperandStart :: "Token list \<Rightarrow> nat \<Rightarrow> error + nat" where
  "findLeftOperandStart tokens operatorIndex =
     (if tokens ! (operatorIndex - 1) = '')''
      then (case scanLeft tokens (int operatorIndex - 2) 1 of
              (i, depth) \<Rightarrow> if depth \<noteq> 0 then Inl ParseError else Inr (nat (i + 1)))
      else Inr (operatorIndex - 1))"

definition findRightOperandEnd :: "Token list \<Rightarrow> nat \<Rightarrow> error + nat" where
  "findRightOperandEnd tokens operatorIndex =
     (if tokens ! (operatorIndex + 1) = ''(''
      then (case scanRight tokens (operatorIndex + 2) 1 of
              (i, depth) \<Rightarrow> if depth \<noteq> 0 then Inl ParseError else Inr (i - 1))
      else Inr (operatorIndex + 1))"

definition indexOf :: "Token list \<Rightarrow> Token \<Rightarrow> nat \<Rightarrow> nat option" where
  "indexOf xs x fromIndex = find (\<lambda>i. xs ! i = x) [fromIndex ..< length xs]"

text \<open>\<open>splice(pos, 0, x)\<close> inserts \<open>x\<close> before position \<open>pos\<close>.\<close>

definition splice :: "nat \<Rightarrow> Token \<Rightarrow> Token list \<Rightarrow> Token list" where
  "splice pos x xs = take pos xs @ [x] @ drop pos xs"

text \<open>The loop over the collected operator positions, rightmost first.\<close>

fun processIndices :: "Token \<Rightarrow> nat list \<Rightarrow> Token list \<Rightarrow> error + Token list" where
  "processIndices operator [] res = Inr res"
| "processIndices operator (index # indices) res =
     (if index \<ge> length res then processIndices operator indices res
      else (case indexOf res operator index of
              None \<Rightarrow> processIndices operator indices res
            | Some actualIndex \<Rightarrow>
                if actualIndex = 0 \<or> actualIndex = length res - 1 then Inl ParseError
                else (case findLeftOperandStart res actualIndex of
                        Inl err \<Rightarrow> Inl err
                      | Inr leftStart \<Rightarrow>
                          (case findRightOperandEnd res actualIndex of
                             Inl err \<Rightarrow> Inl err
                           | Inr rightEnd \<Rightarrow>
                               processIndices operator indices
                                 (splice leftStart ''(''
                                    (splice (rightEnd + 1) '')'' res))))))"

definition addOperatorParentheses :: "Token list \<Rightarrow> Token \<Rightarrow> error + Token list" where
  "addOperatorParentheses tokens operator =
     (if isFullyParenthesized tokens then Inr tokens
      else processIndices operator
             (filter (\<lambda>i. tokens ! i = operator \<and> \<not> isOperatorInParentheses tokens i)
                     (rev [0 ..< length tokens]))
             tokens)"

fun addAllOperatorParentheses :: "Token list \<Rightarrow> Token list \<Rightarrow> error + Token list" where
  "addAllOperatorParentheses [] tokens = Inr tokens"
| "addAllOperatorParentheses (operator # operators) tokens =
     (case addOperatorParentheses tokens operator of
        Inl err \<Rightarrow> Inl err
      | Inr tokens' \<Rightarrow> addAllOperatorParentheses operators tokens')"

definition addParentheses :: "Token list \<Rightarrow> error + Token list" where
  "addParentheses tokens =
     (if length tokens = 0 then Inl ParseError
      else (case validateParentheses tokens of
              Inl err \<Rightarrow> Inl err
            | Inr u \<Rightarrow>
                if isFullyParenthesized tokens then Inr tokens
                else (case addNegationParentheses tokens of
                        Inl err \<Rightarrow> Inl err
                      | Inr processed \<Rightarrow>
                          addAllOperatorParentheses [''&'', ''|'', ''=>'', ''<=>''] processed)))"


section \<open>The AST constructor (constructor.ts)\<close>

text \<open>
  The recursive descent of constructor.ts. The ten functions \<open>parseBiconditional\<close>,
  \<open>parseImplication\<close>, \<open>parseDisjunction\<close>, \<open>parseConjunction\<close>, their four \<open>while\<close>
  loops, \<open>parseNegation\<close> and \<open>parsePrimary\<close> call each other, and the recursion is on
  the token index. Here they are one function, \<open>descend\<close>, whose last argument names
  the function called and its arguments (for a loop: the loop variable \<open>result\<close>, an
  expression and the next index), and whose first argument bounds the call depth;
  \<open>OutOfFuel\<close> is the value of a call that would exceed the bound.
\<close>

type_synonym ParseResult = "expr \<times> nat"

datatype parserCall =
    ParseBiconditional nat | ParseBiconditionalLoop expr nat
  | ParseImplication nat | ParseImplicationLoop expr nat
  | ParseDisjunction nat | ParseDisjunctionLoop expr nat
  | ParseConjunction nat | ParseConjunctionLoop expr nat
  | ParseNegation nat
  | ParsePrimary nat

primrec descend :: "nat \<Rightarrow> Token list \<Rightarrow> parserCall \<Rightarrow> error + ParseResult" where
  "descend 0 tokens call = Inl OutOfFuel"
| "descend (Suc fuel) tokens call =
     (case call of
        ParseBiconditional startIndex \<Rightarrow>
          (case descend fuel tokens (ParseImplication startIndex) of
             Inl err \<Rightarrow> Inl err
           | Inr (e, nextIndex) \<Rightarrow> descend fuel tokens (ParseBiconditionalLoop e nextIndex))
      | ParseBiconditionalLoop e nextIndex \<Rightarrow>
          if nextIndex < length tokens \<and> tokens ! nextIndex = ''<=>''
          then (case descend fuel tokens (ParseImplication (nextIndex + 1)) of
                  Inl err \<Rightarrow> Inl err
                | Inr (right, rightNext) \<Rightarrow>
                    descend fuel tokens (ParseBiconditionalLoop (Biconditional e right) rightNext))
          else Inr (e, nextIndex)
      | ParseImplication startIndex \<Rightarrow>
          (case descend fuel tokens (ParseDisjunction startIndex) of
             Inl err \<Rightarrow> Inl err
           | Inr (e, nextIndex) \<Rightarrow> descend fuel tokens (ParseImplicationLoop e nextIndex))
      | ParseImplicationLoop e nextIndex \<Rightarrow>
          if nextIndex < length tokens \<and> tokens ! nextIndex = ''=>''
          then (case descend fuel tokens (ParseDisjunction (nextIndex + 1)) of
                  Inl err \<Rightarrow> Inl err
                | Inr (right, rightNext) \<Rightarrow>
                    descend fuel tokens (ParseImplicationLoop (Implication e right) rightNext))
          else Inr (e, nextIndex)
      | ParseDisjunction startIndex \<Rightarrow>
          (case descend fuel tokens (ParseConjunction startIndex) of
             Inl err \<Rightarrow> Inl err
           | Inr (e, nextIndex) \<Rightarrow> descend fuel tokens (ParseDisjunctionLoop e nextIndex))
      | ParseDisjunctionLoop e nextIndex \<Rightarrow>
          if nextIndex < length tokens \<and> tokens ! nextIndex = ''|''
          then (case descend fuel tokens (ParseConjunction (nextIndex + 1)) of
                  Inl err \<Rightarrow> Inl err
                | Inr (right, rightNext) \<Rightarrow>
                    descend fuel tokens (ParseDisjunctionLoop (Disjunction e right) rightNext))
          else Inr (e, nextIndex)
      | ParseConjunction startIndex \<Rightarrow>
          (case descend fuel tokens (ParseNegation startIndex) of
             Inl err \<Rightarrow> Inl err
           | Inr (e, nextIndex) \<Rightarrow> descend fuel tokens (ParseConjunctionLoop e nextIndex))
      | ParseConjunctionLoop e nextIndex \<Rightarrow>
          if nextIndex < length tokens \<and> tokens ! nextIndex = ''&''
          then (case descend fuel tokens (ParseNegation (nextIndex + 1)) of
                  Inl err \<Rightarrow> Inl err
                | Inr (right, rightNext) \<Rightarrow>
                    descend fuel tokens (ParseConjunctionLoop (Conjunction e right) rightNext))
          else Inr (e, nextIndex)
      | ParseNegation startIndex \<Rightarrow>
          if startIndex \<ge> length tokens then Inl ParseError
          else if tokens ! startIndex = ''!''
          then (case descend fuel tokens (ParseNegation (startIndex + 1)) of
                  Inl err \<Rightarrow> Inl err
                | Inr (inner, innerNext) \<Rightarrow> Inr (Negation inner, innerNext))
          else descend fuel tokens (ParsePrimary startIndex)
      | ParsePrimary startIndex \<Rightarrow>
          if startIndex \<ge> length tokens then Inl ParseError
          else if tokens ! startIndex = ''(''
          then (case descend fuel tokens (ParseBiconditional (startIndex + 1)) of
                  Inl err \<Rightarrow> Inl err
                | Inr (inner, innerNext) \<Rightarrow>
                    if innerNext \<ge> length tokens \<or> tokens ! innerNext \<noteq> '')''
                    then Inl ParseError
                    else Inr (inner, innerNext + 1))
          else if tokens ! startIndex = ''true'' then Inr (TrueConstant, startIndex + 1)
          else if tokens ! startIndex = ''false'' then Inr (FalseConstant, startIndex + 1)
          else if isValidVariableName (tokens ! startIndex)
          then Inr (Variable (tokens ! startIndex), startIndex + 1)
          else Inl ParseError)"

text \<open>
  \<open>parseExpression\<close> of constructor.ts is \<open>parseBiconditional\<close>. The call depth stays
  below seven calls for each token; \<open>constructAST\<close> starts with ten.
\<close>

definition constructAST :: "Token list \<Rightarrow> error + expr" where
  "constructAST tokens =
     (if length tokens = 0 then Inl ParseError
      else (case descend (10 * length tokens + 10) tokens (ParseBiconditional 0) of
              Inl err \<Rightarrow> Inl err
            | Inr (e, nextIndex) \<Rightarrow> Inr e))"

text \<open>\<open>parseToExpression\<close>, from the token list on.\<close>

definition parseToExpression :: "Token list \<Rightarrow> error + expr" where
  "parseToExpression tokens =
     (if length tokens = 0 then Inl ParseError
      else (case addParentheses tokens of
              Inl err \<Rightarrow> Inl err
            | Inr parenthesizedTokens \<Rightarrow> constructAST parenthesizedTokens))"


section \<open>Notions used in the statements\<close>

text \<open>
  The truth value of an expression under an assignment, read without the possibility of
  failure: a variable is true when the assignment maps it to \<open>true\<close>.
\<close>

fun truth :: "Assignment \<Rightarrow> expr \<Rightarrow> bool" where
  "truth a (Variable n) = (a n = Some True)"
| "truth a (Negation e) = (\<not> truth a e)"
| "truth a (BinaryOperation opr l r) =
     (case opr of
        AND \<Rightarrow> truth a l \<and> truth a r
      | OR \<Rightarrow> truth a l \<or> truth a r
      | IMP \<Rightarrow> truth a l \<longrightarrow> truth a r
      | IFF \<Rightarrow> truth a l = truth a r)"
| "truth a TrueConstant = True"
| "truth a FalseConstant = False"

text \<open>All variable names of an expression are identifiers the parser accepts.\<close>

definition validNames :: "expr \<Rightarrow> bool" where
  "validNames e = (\<forall>n \<in> set (getVariables e). isValidVariableName n)"

text \<open>
  The first \<open>n\<close> rounds of the inner loop of \<open>generateTruthTable\<close>, for any choice
  \<open>f\<close> of the value stored in round \<open>j\<close>.
\<close>

definition assignUpTo :: "string list \<Rightarrow> (nat \<Rightarrow> bool) \<Rightarrow> nat \<Rightarrow> Assignment" where
  "assignUpTo vs f n = fold (\<lambda>j a. storeProperty a (vs ! j) (f j)) [0 ..< n] Map.empty"

text \<open>
  The rules whose \<open>apply\<close> repeats the whole test of \<open>canApply\<close> before it builds
  anything.
\<close>

definition guardedRules :: "TransformationRule list" where
  "guardedRules =
    [CommutativityAND, CommutativityOR, CommutativityIFF,
     CommutativityANDAND, CommutativityOROR,
     DoubleNegation, ExcludedMiddle, Contradiction,
     DeMorganAND, DeMorganOR, DeMorganANDReverse, DeMorganORReverse,
     ImplicationElimination, ImplicationEliminationReverse,
     DistributivityAND, DistributivityOR,
     Equivalence, SimplificationWithTrue]"


text \<open>The rules whose \<open>apply\<close> has no test: it builds its result from any argument.\<close>

definition unguardedRules :: "TransformationRule list" where
  "unguardedRules =
    [IdempotenceReverseOR, IdempotenceReverseAND,
     Simplification1AndReverse, Simplification1OrReverse,
     Simplification1True, Simplification1False]"

text \<open>The node that the search creates for a transformation of the current node.\<close>

definition mkNode :: "ProofNode \<Rightarrow> Transformation \<Rightarrow> ProofNode" where
  "mkNode cur t = (case t of (e', r, sub) \<Rightarrow>
      ProofNode e' (Some cur) (Some r) (Some sub) (node_depth cur + 1))"

text \<open>
  The expressions within the length budget \<open>maxL\<close> over the variables of \<open>S\<close>.
\<close>

definition withinBudget :: "expr \<Rightarrow> number \<Rightarrow> expr set" where
  "withinBudget S maxL =
     {e. numLe (getLength e) maxL \<and> set (getVariables e) \<subseteq> set (getVariables S)}"




text \<open>
  One application of one rule of \<open>rs\<close> at one position of an expression: at the root,
  or inside the operand of a negation, or inside the left or the right operand of a binary
  operation. The triple holds the new expression, the rule and the subexpression that the
  rule was applied to.
\<close>

inductive rewritesTo :: "TransformationRule list \<Rightarrow> expr \<Rightarrow> Transformation \<Rightarrow> bool"
  for rs :: "TransformationRule list" where
  atRoot: "r \<in> set rs \<Longrightarrow> canApply r e \<Longrightarrow> apply_rule r e = Returned e' \<Longrightarrow>
           rewritesTo rs e (e', r, e)"
| inNegation: "rewritesTo rs x (x', r, sub) \<Longrightarrow>
           rewritesTo rs (Negation x) (Negation x', r, sub)"
| inLeft: "rewritesTo rs l (l', r, sub) \<Longrightarrow>
           rewritesTo rs (BinaryOperation opr l rt) (BinaryOperation opr l' rt, r, sub)"
| inRight: "rewritesTo rs rt (rt', r, sub) \<Longrightarrow>
           rewritesTo rs (BinaryOperation opr l rt) (BinaryOperation opr l rt', r, sub)"


section \<open>Expressions: equality, variables, evaluation\<close>

lemma equals_iff: "equals a b \<longleftrightarrow> a = b"
  by (induction a arbitrary: b) (auto split: expr.splits)

lemma clone_id: "clone e = e"
  by (induction e) auto

lemma set_newSet: "set (newSet l r) = set l \<union> set r"
  by (auto simp: newSet_def)

lemma distinct_newSet: "distinct l \<Longrightarrow> distinct r \<Longrightarrow> distinct (newSet l r)"
  by (auto simp: newSet_def)

lemma distinct_getVariables: "distinct (getVariables e)"
  by (induction e) (auto simp: distinct_newSet)

lemma evaluate_total:
  "set (getVariables e) \<subseteq> dom a \<Longrightarrow> evaluate e a = Inr (JSBoolean (truth a e))"
proof (induction e)
  case (BinaryOperation opr l r)
  then show ?case by (cases opr) (auto simp: set_newSet Let_def)
qed auto

lemma guard_simps [simp]:
  "isConjunction (BinaryOperation opr l r) = (opr = AND)"
  "isDisjunction (BinaryOperation opr l r) = (opr = OR)"
  "isImplication (BinaryOperation opr l r) = (opr = IMP)"
  "isBiconditional (BinaryOperation opr l r) = (opr = IFF)"
  by (cases opr; simp)+

lemma isTrueConstant_iff [simp]: "isTrueConstant e = (e = TrueConstant)"
  by (cases e) auto

lemma isFalseConstant_iff [simp]: "isFalseConstant e = (e = FalseConstant)"
  by (cases e) auto

lemma isNegation_iff: "isNegation e = (\<exists>x. e = Negation x)"
  by (cases e) auto

lemma validNames_simps [simp]:
  "validNames (Variable n) = isValidVariableName n"
  "validNames (Negation x) = validNames x"
  "validNames (BinaryOperation opr l r) = (validNames l \<and> validNames r)"
  "validNames TrueConstant"
  "validNames FalseConstant"
  by (auto simp: validNames_def set_newSet)


section \<open>Soundness of the rules\<close>

lemma apply_sound:
  "canApply r e \<Longrightarrow>
   \<exists>e'. apply_rule r e = Returned e' \<and> set (getVariables e') \<subseteq> set (getVariables e) \<and>
        (\<forall>a. truth a e' = truth a e)"
  by (cases r)
     (auto simp: equals_iff clone_id set_newSet split: expr.splits binop.splits if_splits)

text \<open>
  C1. Every rule of the catalogue, on every expression it accepts, returns an expression
  that evaluates to the same boolean as the original under every assignment defined on
  the variables of both.
\<close>

theorem rule_soundness:
  assumes "r \<in> set ALL_TRANSFORMATION_RULES" and "canApply r e"
  shows "\<exists>e'. apply_rule r e = Returned e' \<and>
           (\<forall>\<sigma>. set (getVariables e) \<union> set (getVariables e') \<subseteq> dom \<sigma> \<longrightarrow>
                (\<exists>b. evaluate e \<sigma> = Inr (JSBoolean b) \<and>
                     evaluate e' \<sigma> = Inr (JSBoolean b)))"
proof -
  from apply_sound [OF assms(2)] obtain e' where
    ap: "apply_rule r e = Returned e'" and tr: "\<forall>a. truth a e' = truth a e"
    by blast
  have "\<exists>b. evaluate e \<sigma> = Inr (JSBoolean b) \<and> evaluate e' \<sigma> = Inr (JSBoolean b)"
    if "set (getVariables e) \<union> set (getVariables e') \<subseteq> dom \<sigma>" for \<sigma>
    using that tr evaluate_total [of e \<sigma>] evaluate_total [of e' \<sigma>] by simp
  with ap show ?thesis by blast
qed

theorem rule_soundness_witness:
  "DeMorganAND \<in> set ALL_TRANSFORMATION_RULES \<and>
   canApply DeMorganAND (Negation (Conjunction (Variable ''a'') (Variable ''b''))) \<and>
   apply_rule DeMorganAND (Negation (Conjunction (Variable ''a'') (Variable ''b'')))
     = Returned (Disjunction (Negation (Variable ''a'')) (Negation (Variable ''b''))) \<and>
   evaluate (Negation (Conjunction (Variable ''a'') (Variable ''b'')))
            [''a'' \<mapsto> True, ''b'' \<mapsto> False]
     = evaluate (Disjunction (Negation (Variable ''a'')) (Negation (Variable ''b'')))
                [''a'' \<mapsto> True, ''b'' \<mapsto> False]"
  using rule_soundness [of DeMorganAND "Negation (Conjunction (Variable ''a'') (Variable ''b''))"]
  by (simp add: ALL_TRANSFORMATION_RULES_def)


section \<open>What \<open>apply\<close> does where \<open>canApply\<close> refuses\<close>

text \<open>
  C4 as stated: every rule of the catalogue throws on every expression that its
  \<open>canApply\<close> rejects. \<open>Simplification1True\<close> rejects the variable \<open>a\<close>, and its \<open>apply\<close>,
  which ignores its argument, returns \<open>true\<close>.
\<close>

theorem apply_partiality_counterexample:
  "Simplification1True \<in> set ALL_TRANSFORMATION_RULES \<and>
   \<not> canApply Simplification1True (Variable ''a'') \<and>
   apply_rule Simplification1True (Variable ''a'') = Returned TrueConstant"
  by (simp add: ALL_TRANSFORMATION_RULES_def)

lemma guarded_throw:
  "r \<in> set guardedRules \<Longrightarrow> \<not> canApply r e \<Longrightarrow> apply_rule r e = Threw RuleViolation"
  unfolding guardedRules_def
  by (auto simp: isNegation_iff split: expr.splits binop.splits if_splits)

lemma unguarded_return:
  "q \<in> set unguardedRules \<Longrightarrow> \<exists>e'. apply_rule q x = Returned e'"
  unfolding unguardedRules_def by auto

lemma unguarded_rejects:
  "q \<in> set unguardedRules \<Longrightarrow> \<exists>y. \<not> canApply q y"
proof -
  assume q: "q \<in> set unguardedRules"
  have "\<not> canApply IdempotenceReverseOR (Disjunction (Variable ''a'') (Variable ''a''))"
       "\<not> canApply IdempotenceReverseAND (Disjunction (Variable ''a'') (Variable ''a''))"
       "\<not> canApply Simplification1AndReverse (Conjunction (Variable ''a'') TrueConstant)"
       "\<not> canApply Simplification1OrReverse (Conjunction (Variable ''a'') TrueConstant)"
       "\<not> canApply Simplification1True (Variable ''a'')"
       "\<not> canApply Simplification1False (Variable ''a'')"
    by simp_all
  moreover from q have
    "q = IdempotenceReverseOR \<or> q = IdempotenceReverseAND \<or>
     q = Simplification1AndReverse \<or> q = Simplification1OrReverse \<or>
     q = Simplification1True \<or> q = Simplification1False"
    by (simp add: unguardedRules_def)
  ultimately show ?thesis by blast
qed

text \<open>
  C4, amended: each of the eighteen rules whose \<open>apply\<close> repeats the test of \<open>canApply\<close>
  throws on every expression that its \<open>canApply\<close> rejects; each of the six rules whose
  \<open>apply\<close> has no test returns a result on every expression, and its \<open>canApply\<close> rejects
  some expression.
\<close>

theorem guarded_apply_partiality:
  "(r \<in> set guardedRules \<longrightarrow> \<not> canApply r e \<longrightarrow> apply_rule r e = Threw RuleViolation) \<and>
   (q \<in> set unguardedRules \<longrightarrow>
      (\<exists>e'. apply_rule q x = Returned e') \<and> (\<exists>y. \<not> canApply q y))"
  using guarded_throw [of r e] unguarded_return [of q x] unguarded_rejects [of q]
  by blast

theorem guarded_apply_partiality_witness:
  "DoubleNegation \<in> set guardedRules \<and>
   \<not> canApply DoubleNegation (Negation (Variable ''a'')) \<and>
   apply_rule DoubleNegation (Negation (Variable ''a'')) = Threw RuleViolation \<and>
   IdempotenceReverseOR \<in> set unguardedRules \<and>
   \<not> canApply IdempotenceReverseOR (Disjunction (Variable ''a'') (Variable ''a'')) \<and>
   (\<exists>e'. apply_rule IdempotenceReverseOR (Disjunction (Variable ''a'') (Variable ''a''))
           = Returned e')"
  using guarded_apply_partiality [of DoubleNegation "Negation (Variable ''a'')"
          IdempotenceReverseOR "Disjunction (Variable ''a'') (Variable ''a'')"]
  by (simp add: guardedRules_def unguardedRules_def)


section \<open>The hash is injective\<close>

lemma valid_no_paren: "isValidVariableName n \<Longrightarrow> CHR '')'' \<notin> set n"
  by (cases n) (auto simp: isLetter_def isWordChar_def list_all_iff)

lemma delimited_eq:
  "x \<notin> set n \<Longrightarrow> x \<notin> set m \<Longrightarrow> n @ x # s = m @ x # t \<Longrightarrow> n = m \<and> s = t"
proof (induction n arbitrary: m)
  case Nil
  then show ?case by (cases m) auto
next
  case (Cons a n)
  then show ?case by (cases m) auto
qed

lemma opname_eq:
  "getOperatorName opr @ ''('' @ a = getOperatorName opr' @ ''('' @ b \<Longrightarrow> opr = opr' \<and> a = b"
  by (cases opr; cases opr'; simp)

lemma opname_neq:
  "getOperatorName opr @ a \<noteq> ''VAR('' @ b"
  "getOperatorName opr @ a \<noteq> ''NOT('' @ b"
  "getOperatorName opr @ a \<noteq> ''TRUE'' @ b"
  "getOperatorName opr @ a \<noteq> ''FALSE'' @ b"
  by (cases opr; simp)+

lemma bin_hash_neq:
  "getHash (BinaryOperation opr l r) @ s \<noteq> getHash (Variable m) @ t"
  "getHash (BinaryOperation opr l r) @ s \<noteq> getHash (Negation y) @ t"
  "getHash (BinaryOperation opr l r) @ s \<noteq> getHash TrueConstant @ t"
  "getHash (BinaryOperation opr l r) @ s \<noteq> getHash FalseConstant @ t"
  using opname_neq(1) [of opr "''('' @ getHash l @ '', '' @ getHash r @ '')'' @ s" "m @ '')'' @ t"]
        opname_neq(2) [of opr "''('' @ getHash l @ '', '' @ getHash r @ '')'' @ s"
                          "getHash y @ '')'' @ t"]
        opname_neq(3) [of opr "''('' @ getHash l @ '', '' @ getHash r @ '')'' @ s" t]
        opname_neq(4) [of opr "''('' @ getHash l @ '', '' @ getHash r @ '')'' @ s" t]
  by simp_all

text \<open>
  No hash is a proper prefix of another: reading a hash from the left determines the
  expression and where its hash ends.
\<close>

lemma getHash_prefix_free:
  "validNames e1 \<Longrightarrow> validNames e2 \<Longrightarrow>
   getHash e1 @ s1 = getHash e2 @ s2 \<Longrightarrow> e1 = e2 \<and> s1 = s2"
proof (induction e1 arbitrary: e2 s1 s2)
  case (Variable n)
  show ?case
  proof (cases e2)
    case (Variable m)
    with Variable.prems have "n @ CHR '')'' # s1 = m @ CHR '')'' # s2" by simp
    moreover have "CHR '')'' \<notin> set n" "CHR '')'' \<notin> set m"
      using Variable.prems \<open>e2 = Variable m\<close> by (simp_all add: valid_no_paren)
    ultimately have "n = m \<and> s1 = s2" by (rule delimited_eq [rotated 2])
    with Variable show ?thesis by simp
  next
    case (BinaryOperation opr l r)
    with Variable.prems(3) bin_hash_neq(1) [of opr l r s2 n s1] show ?thesis by metis
  qed (use Variable.prems(3) in simp_all)
next
  case (Negation x)
  show ?case
  proof (cases e2)
    case (Negation y)
    with Negation.prems have "getHash x @ ('')'' @ s1) = getHash y @ ('')'' @ s2)" by simp
    moreover have "validNames x" "validNames y"
      using Negation.prems \<open>e2 = Negation y\<close> by simp_all
    ultimately have "x = y \<and> '')'' @ s1 = '')'' @ s2" by (rule Negation.IH [rotated 2])
    with \<open>e2 = Negation y\<close> show ?thesis by simp
  next
    case (BinaryOperation opr l r)
    with Negation.prems(3) bin_hash_neq(2) [of opr l r s2 x s1] show ?thesis by metis
  qed (use Negation.prems(3) in simp_all)
next
  case (BinaryOperation opr l r)
  show ?case
  proof (cases e2)
    case (BinaryOperation opr' l' r')
    with BinaryOperation.prems(3) have
      "getOperatorName opr @ ''('' @ (getHash l @ '', '' @ getHash r @ '')'' @ s1) =
       getOperatorName opr' @ ''('' @ (getHash l' @ '', '' @ getHash r' @ '')'' @ s2)"
      by simp
    then have o: "opr = opr'" and
      eq: "getHash l @ ('', '' @ getHash r @ '')'' @ s1) =
           getHash l' @ ('', '' @ getHash r' @ '')'' @ s2)"
      using opname_eq by blast+
    have v: "validNames l" "validNames l'" "validNames r" "validNames r'"
      using BinaryOperation.prems(1,2) \<open>e2 = _\<close> by simp_all
    from v(1,2) eq
    have "l = l' \<and> '', '' @ getHash r @ '')'' @ s1 = '', '' @ getHash r' @ '')'' @ s2"
      by (rule BinaryOperation.IH(1))
    then have l: "l = l'" and "getHash r @ ('')'' @ s1) = getHash r' @ ('')'' @ s2)"
      by simp_all
    with v(3,4) have "r = r' \<and> '')'' @ s1 = '')'' @ s2"
      by (intro BinaryOperation.IH(2))
    with o l \<open>e2 = _\<close> show ?thesis by simp
  next
    case (Variable m)
    with BinaryOperation.prems(3) bin_hash_neq(1) [of opr l r s1 m s2] show ?thesis by metis
  next
    case (Negation y)
    with BinaryOperation.prems(3) bin_hash_neq(2) [of opr l r s1 y s2] show ?thesis by metis
  next
    case TrueConstant
    with BinaryOperation.prems(3) bin_hash_neq(3) [of opr l r s1 s2] show ?thesis by metis
  next
    case FalseConstant
    with BinaryOperation.prems(3) bin_hash_neq(4) [of opr l r s1 s2] show ?thesis by metis
  qed
next
  case TrueConstant
  show ?case
  proof (cases e2)
    case (BinaryOperation opr l r)
    with TrueConstant.prems(3) bin_hash_neq(3) [of opr l r s2 s1] show ?thesis by metis
  qed (use TrueConstant.prems(3) in simp_all)
next
  case FalseConstant
  show ?case
  proof (cases e2)
    case (BinaryOperation opr l r)
    with FalseConstant.prems(3) bin_hash_neq(4) [of opr l r s2 s1] show ?thesis by metis
  qed (use FalseConstant.prems(3) in simp_all)
qed

lemma getHash_inj:
  "validNames e1 \<Longrightarrow> validNames e2 \<Longrightarrow> getHash e1 = getHash e2 \<Longrightarrow> e1 = e2"
  using getHash_prefix_free [of e1 e2 "[]" "[]"] by simp

text \<open>
  C6. For expressions whose variable names are identifiers that the parser accepts,
  \<open>equals\<close> holds exactly when the hashes are equal, and equal hashes mean the same tree.
\<close>

theorem hash_equals:
  assumes "\<forall>n \<in> set (getVariables e1) \<union> set (getVariables e2). isValidVariableName n"
  shows "(equals e1 e2 \<longleftrightarrow> getHash e1 = getHash e2) \<and>
         (getHash e1 = getHash e2 \<longrightarrow> e1 = e2)"
  using assms getHash_inj [of e1 e2] by (auto simp: equals_iff validNames_def)

theorem hash_equals_witness:
  "isValidVariableName ''p'' \<and> isValidVariableName ''q_1'' \<and>
   getVariables (Conjunction (Variable ''p'') (Variable ''q_1'')) = [''p'', ''q_1''] \<and>
   getVariables (Conjunction (Variable ''p'') (Negation (Variable ''q_1''))) = [''p'', ''q_1''] \<and>
   \<not> equals (Conjunction (Variable ''p'') (Variable ''q_1''))
            (Conjunction (Variable ''p'') (Negation (Variable ''q_1''))) \<and>
   getHash (Conjunction (Variable ''p'') (Variable ''q_1'')) \<noteq>
   getHash (Conjunction (Variable ''p'') (Negation (Variable ''q_1'')))"
  using hash_equals [of "Conjunction (Variable ''p'') (Variable ''q_1'')"
                        "Conjunction (Variable ''p'') (Negation (Variable ''q_1''))"]
  by (simp add: newSet_def reservedWords_def isLetter_def isWordChar_def)


section \<open>Truth tables\<close>

lemma assignUpTo_0: "assignUpTo vs f 0 = Map.empty"
  by (simp add: assignUpTo_def)

lemma assignUpTo_Suc:
  "assignUpTo vs f (Suc n) = storeProperty (assignUpTo vs f n) (vs ! n) (f n)"
  by (simp add: assignUpTo_def)

lemma storeProperty_dom:
  "dom (storeProperty a key v) = (if key = ''__proto__'' then dom a else insert key (dom a))"
  by (simp add: storeProperty_def)

lemma assignUpTo_dom:
  "dom (assignUpTo vs f n) = (\<lambda>j. vs ! j) ` {..< n} - {''__proto__''}"
proof (induction n)
  case 0
  show ?case by (simp add: assignUpTo_0)
next
  case (Suc n)
  have "dom (assignUpTo vs f (Suc n)) =
        (if vs ! n = ''__proto__'' then dom (assignUpTo vs f n)
         else insert (vs ! n) (dom (assignUpTo vs f n)))"
    by (simp only: assignUpTo_Suc storeProperty_dom)
  then show ?case unfolding Suc.IH lessThan_Suc image_insert by auto
qed

lemma assignUpTo_nth:
  "distinct vs \<Longrightarrow> n \<le> length vs \<Longrightarrow> j < n \<Longrightarrow> vs ! j \<noteq> ''__proto__'' \<Longrightarrow>
   assignUpTo vs f n (vs ! j) = Some (f j)"
proof (induction n)
  case 0
  then show ?case by simp
next
  case (Suc n)
  show ?case
  proof (cases "j = n")
    case True
    with Suc.prems show ?thesis by (simp add: assignUpTo_Suc storeProperty_def)
  next
    case False
    with Suc.prems have "j < n" "vs ! j \<noteq> vs ! n"
      by (auto simp: nth_eq_iff_index_eq)
    with Suc show ?thesis by (simp add: assignUpTo_Suc storeProperty_def)
  qed
qed

lemma rowAssignment_assignUpTo:
  "rowAssignment vs i =
   assignUpTo vs (\<lambda>j. and (drop_bit (length vs - 1 - j) i) 1 \<noteq> 0) (length vs)"
  by (simp add: rowAssignment_def assignUpTo_def)

lemma rowAssignment_dom: "dom (rowAssignment vs i) = set vs - {''__proto__''}"
  unfolding rowAssignment_assignUpTo assignUpTo_dom by (auto simp: set_conv_nth)

lemma rowAssignment_nth:
  "distinct vs \<Longrightarrow> j < length vs \<Longrightarrow> vs ! j \<noteq> ''__proto__'' \<Longrightarrow>
   rowAssignment vs i (vs ! j) = Some (and (drop_bit (length vs - 1 - j) i) 1 = 1)"
  unfolding rowAssignment_assignUpTo
  by (subst assignUpTo_nth) (auto simp: and_one_eq)

text \<open>
  \<open>evaluate\<close> returns whenever every variable is an own property of the assignment or a
  property of \<open>Object.prototype\<close>.
\<close>

lemma evaluate_defined:
  "\<forall>n \<in> set (getVariables e). n \<in> dom a \<or> n \<in> set objectPrototypeKeys \<Longrightarrow>
   \<exists>v. evaluate e a = Inr v"
proof (induction e)
  case (Variable n)
  then show ?case by (cases "a n") auto
next
  case (Negation e)
  then show ?case by auto
next
  case (BinaryOperation opr l r)
  then obtain lv rv where "evaluate l a = Inr lv" "evaluate r a = Inr rv"
    by (auto simp: set_newSet)
  then show ?case by (cases opr) (simp_all add: Let_def)
qed simp_all

lemma tableRow_defined:
  "set (getVariables e) \<subseteq> set vs \<Longrightarrow>
   \<exists>v. evaluate e (rowAssignment vs i) = Inr v \<and>
       tableRow e vs i = \<lparr>assignment = rowAssignment vs i, result = v\<rparr>"
proof -
  assume sub: "set (getVariables e) \<subseteq> set vs"
  have "\<forall>n \<in> set (getVariables e).
          n \<in> dom (rowAssignment vs i) \<or> n \<in> set objectPrototypeKeys"
    using sub by (auto simp: rowAssignment_dom objectPrototypeKeys_def)
  from evaluate_defined [OF this] obtain v where "evaluate e (rowAssignment vs i) = Inr v"
    by blast
  then show ?thesis by (simp add: tableRow_def Let_def)
qed

lemma tableRow_total:
  "set (getVariables e) \<subseteq> set vs \<Longrightarrow> ''__proto__'' \<notin> set vs \<Longrightarrow>
   tableRow e vs i = \<lparr>assignment = rowAssignment vs i,
                       result = JSBoolean (truth (rowAssignment vs i) e)\<rparr> \<and>
   evaluate e (rowAssignment vs i) = Inr (JSBoolean (truth (rowAssignment vs i) e))"
  using evaluate_total [of e "rowAssignment vs i"]
  by (simp add: tableRow_def rowAssignment_dom Let_def)

lemma validate_fst: "fst (validateVariableCount e) = (length (getVariables e) \<le> 15)"
  by (auto simp: validateVariableCount_def MAX_TRUTH_TABLE_VARIABLES_def Let_def)

lemma proto_table:
  "generateTruthTable (Disjunction (Negation (Variable ''__proto__'')) (Variable ''a'')) =
   Inr \<lparr>variables = [''__proto__'', ''a''],
        rows = map (tableRow (Disjunction (Negation (Variable ''__proto__'')) (Variable ''a''))
                      [''__proto__'', ''a'']) [0 ..< 4],
        expression = Disjunction (Negation (Variable ''__proto__'')) (Variable ''a'')\<rparr>"
  by (simp add: generateTruthTable_def validateVariableCount_def MAX_TRUTH_TABLE_VARIABLES_def
        newSet_def Let_def)

text \<open>
  C7 as stated: for every expression with at most 15 variables, row \<open>i\<close> assigns to the
  variable at sorted position \<open>j\<close> the bit \<open>(i >> (k-1-j)) & 1\<close>, and the result of the
  row is the value of the expression under that assignment. The expression
  \<open>!__proto__ | a\<close> has the sorted variables \<open>__proto__\<close>, \<open>a\<close>. In row 2 the bit of
  \<open>__proto__\<close> is 1, yet the row object has no property of its own under that name; the
  result of row 0 is \<open>false\<close>, while the expression is true under the assignment of
  \<open>false\<close> to both variables.
\<close>

theorem truth_table_proto_counterexample:
  "\<not> isl (generateTruthTable (Disjunction (Negation (Variable ''__proto__'')) (Variable ''a''))) \<and>
   variables (projr (generateTruthTable
      (Disjunction (Negation (Variable ''__proto__'')) (Variable ''a'')))) = [''__proto__'', ''a''] \<and>
   (and (drop_bit (2 - 1 - 0) (2::nat)) 1) = (1::nat) \<and>
   assignment (rows (projr (generateTruthTable
      (Disjunction (Negation (Variable ''__proto__'')) (Variable ''a'')))) ! 2) ''__proto__'' = None \<and>
   result (rows (projr (generateTruthTable
      (Disjunction (Negation (Variable ''__proto__'')) (Variable ''a'')))) ! 0) = JSBoolean False \<and>
   evaluate (Disjunction (Negation (Variable ''__proto__'')) (Variable ''a''))
      [''__proto__'' \<mapsto> False, ''a'' \<mapsto> False] = Inr (JSBoolean True)"
  unfolding proto_table
  by (simp add: tableRow_def rowAssignment_def storeProperty_def objectPrototypeKeys_def
        drop_bit_eq_div upt_rec)

text \<open>
  C7, amended: for every expression \<open>e\<close> with \<open>k \<le> 15\<close> variables, \<open>generateTruthTable\<close>
  returns the variable list sorted ascending and without duplicates, and exactly \<open>2^k\<close>
  rows; when no variable of \<open>e\<close> is named \<open>__proto__\<close>, row \<open>i\<close> assigns to the
  variable at sorted position \<open>j\<close> the bit \<open>(i >> (k-1-j)) & 1\<close> and its result is the
  boolean that \<open>evaluate\<close> returns under the assignment of the row. With more than 15
  variables it throws.
\<close>

theorem truth_table_rows:
  "(length (getVariables e) \<le> 15 \<longrightarrow>
      (\<exists>t. generateTruthTable e = Inr t \<and>
           sorted (variables t) \<and> distinct (variables t) \<and>
           set (variables t) = set (getVariables e) \<and>
           length (rows t) = 2 ^ length (getVariables e) \<and>
           (''__proto__'' \<notin> set (getVariables e) \<longrightarrow>
            (\<forall>i < 2 ^ length (getVariables e).
               (\<forall>j < length (getVariables e).
                  assignment (rows t ! i) (variables t ! j) =
                    Some (and (drop_bit (length (getVariables e) - 1 - j) i) 1 = 1)) \<and>
               (\<exists>b. result (rows t ! i) = JSBoolean b \<and>
                    evaluate e (assignment (rows t ! i)) = Inr (JSBoolean b)))))) \<and>
   (length (getVariables e) > 15 \<longrightarrow> generateTruthTable e = Inl TruthTableTooLarge)"
proof (intro conjI impI)
  assume "length (getVariables e) > 15"
  then show "generateTruthTable e = Inl TruthTableTooLarge"
    by (simp add: generateTruthTable_def validate_fst)
next
  let ?vs = "sort (getVariables e)"
  let ?k = "length (getVariables e)"
  let ?t = "\<lparr>variables = ?vs, rows = map (tableRow e ?vs) [0 ..< 2 ^ ?k], expression = e\<rparr>"
  assume k: "?k \<le> 15"
  then have gen: "generateTruthTable e = Inr ?t"
    by (simp add: generateTruthTable_def validate_fst Let_def)
  have d: "distinct ?vs" by (simp add: distinct_getVariables)
  have row: "assignment (rows ?t ! i) (variables ?t ! j) =
               Some (and (drop_bit (?k - 1 - j) i) 1 = 1)"
    if "''__proto__'' \<notin> set (getVariables e)" "i < 2 ^ ?k" "j < ?k" for i j
  proof -
    from that have "?vs ! j \<noteq> ''__proto__''"
      by (metis length_sort nth_mem set_sort)
    with that d rowAssignment_nth [of ?vs j i] tableRow_total [of e ?vs i]
    show ?thesis by simp
  qed
  have ev: "\<exists>b. result (rows ?t ! i) = JSBoolean b \<and>
                evaluate e (assignment (rows ?t ! i)) = Inr (JSBoolean b)"
    if "''__proto__'' \<notin> set (getVariables e)" "i < 2 ^ ?k" for i
    using that tableRow_total [of e ?vs i] by simp
  show "\<exists>t. generateTruthTable e = Inr t \<and>
           sorted (variables t) \<and> distinct (variables t) \<and>
           set (variables t) = set (getVariables e) \<and>
           length (rows t) = 2 ^ ?k \<and>
           (''__proto__'' \<notin> set (getVariables e) \<longrightarrow>
            (\<forall>i < 2 ^ ?k.
               (\<forall>j < ?k. assignment (rows t ! i) (variables t ! j) =
                    Some (and (drop_bit (?k - 1 - j) i) 1 = 1)) \<and>
               (\<exists>b. result (rows t ! i) = JSBoolean b \<and>
                    evaluate e (assignment (rows t ! i)) = Inr (JSBoolean b))))"
    using gen d row ev by (intro exI [of _ ?t]) simp
qed

lemma tt_example:
  "getVariables (Disjunction (Variable ''b'') (Negation (Variable ''a''))) = [''b'', ''a'']"
  by (simp add: newSet_def)

lemma tt_example_large:
  "length (getVariables (fold (\<lambda>n e. Disjunction e (Variable n))
      [''b'', ''c'', ''d'', ''e'', ''f'', ''g'', ''h'', ''i'', ''j'', ''k'', ''l'', ''m'',
       ''n'', ''o'', ''p''] (Variable ''a''))) = 16"
  by (simp add: newSet_def)

theorem truth_table_rows_witness:
  "length (getVariables (Disjunction (Variable ''b'') (Negation (Variable ''a'')))) \<le> 15 \<and>
   ''__proto__'' \<notin> set (getVariables (Disjunction (Variable ''b'') (Negation (Variable ''a'')))) \<and>
   (\<exists>t. generateTruthTable (Disjunction (Variable ''b'') (Negation (Variable ''a''))) = Inr t \<and>
        sorted (variables t) \<and> set (variables t) = {''a'', ''b''} \<and>
        length (rows t) = 4 \<and>
        assignment (rows t ! 2) (variables t ! 0) = Some True \<and>
        assignment (rows t ! 2) (variables t ! 1) = Some False \<and>
        (\<exists>b. result (rows t ! 2) = JSBoolean b \<and>
             evaluate (Disjunction (Variable ''b'') (Negation (Variable ''a'')))
                      (assignment (rows t ! 2)) = Inr (JSBoolean b))) \<and>
   length (getVariables (fold (\<lambda>n e. Disjunction e (Variable n))
      [''b'', ''c'', ''d'', ''e'', ''f'', ''g'', ''h'', ''i'', ''j'', ''k'', ''l'', ''m'',
       ''n'', ''o'', ''p''] (Variable ''a''))) > 15 \<and>
   generateTruthTable (fold (\<lambda>n e. Disjunction e (Variable n))
      [''b'', ''c'', ''d'', ''e'', ''f'', ''g'', ''h'', ''i'', ''j'', ''k'', ''l'', ''m'',
       ''n'', ''o'', ''p''] (Variable ''a'')) = Inl TruthTableTooLarge"
proof -
  let ?e = "Disjunction (Variable ''b'') (Negation (Variable ''a''))"
  let ?big = "fold (\<lambda>n e. Disjunction e (Variable n))
      [''b'', ''c'', ''d'', ''e'', ''f'', ''g'', ''h'', ''i'', ''j'', ''k'', ''l'', ''m'',
       ''n'', ''o'', ''p''] (Variable ''a'')"
  have k: "length (getVariables ?e) = 2" by (simp add: newSet_def)
  have np: "''__proto__'' \<notin> set (getVariables ?e)" by (simp add: newSet_def)
  from truth_table_rows [of ?e] k np obtain t where
    t: "generateTruthTable ?e = Inr t" "sorted (variables t)"
       "set (variables t) = set (getVariables ?e)" "length (rows t) = 2 ^ 2"
    and row: "\<forall>i < 2 ^ 2. (\<forall>j < 2. assignment (rows t ! i) (variables t ! j) =
                Some (and (drop_bit (2 - 1 - j) i) 1 = 1)) \<and>
              (\<exists>b. result (rows t ! i) = JSBoolean b \<and>
                   evaluate ?e (assignment (rows t ! i)) = Inr (JSBoolean b))"
    by auto
  from row have "assignment (rows t ! 2) (variables t ! 0) = Some (and (drop_bit (2 - 1 - 0) (2::nat)) 1 = 1)"
    and "assignment (rows t ! 2) (variables t ! 1) = Some (and (drop_bit (2 - 1 - 1) (2::nat)) 1 = 1)"
    and "\<exists>b. result (rows t ! 2) = JSBoolean b \<and>
             evaluate ?e (assignment (rows t ! 2)) = Inr (JSBoolean b)"
    by simp_all
  moreover have "and (drop_bit (2 - 1 - 0) (2::nat)) 1 = 1"
    by (simp add: drop_bit_eq_div)
  moreover have "and (drop_bit (2 - 1 - 1) (2::nat)) 1 \<noteq> 1"
    by (simp add: drop_bit_eq_div)
  ultimately have "assignment (rows t ! 2) (variables t ! 0) = Some True"
    "assignment (rows t ! 2) (variables t ! 1) = Some False"
    "\<exists>b. result (rows t ! 2) = JSBoolean b \<and>
         evaluate ?e (assignment (rows t ! 2)) = Inr (JSBoolean b)"
    by simp_all
  with t k have small: "\<exists>t. generateTruthTable ?e = Inr t \<and>
        sorted (variables t) \<and> set (variables t) = {''a'', ''b''} \<and>
        length (rows t) = 4 \<and>
        assignment (rows t ! 2) (variables t ! 0) = Some True \<and>
        assignment (rows t ! 2) (variables t ! 1) = Some False \<and>
        (\<exists>b. result (rows t ! 2) = JSBoolean b \<and>
             evaluate ?e (assignment (rows t ! 2)) = Inr (JSBoolean b))"
    by (intro exI [of _ t]) (auto simp: newSet_def)
  have big: "length (getVariables ?big) > 15"
    unfolding tt_example_large by simp
  from truth_table_rows [of ?big]
  have "length (getVariables ?big) > 15 \<longrightarrow> generateTruthTable ?big = Inl TruthTableTooLarge"
    by (rule conjunct2)
  with big have "generateTruthTable ?big = Inl TruthTableTooLarge" by (rule rev_mp)
  moreover have "length (getVariables ?e) \<le> 15" unfolding k by simp
  ultimately show ?thesis using small big np by (intro conjI)
qed

text \<open>
  C10 as stated: every row assignment is defined on exactly the sorted variable list.
  For \<open>!__proto__ | a\<close> the variable list is \<open>__proto__\<close>, \<open>a\<close> and the assignment of
  row 1 is defined on \<open>a\<close> alone.
\<close>

theorem row_domain_counterexample:
  "\<not> isl (generateTruthTable (Disjunction (Negation (Variable ''__proto__'')) (Variable ''a''))) \<and>
   variables (projr (generateTruthTable
      (Disjunction (Negation (Variable ''__proto__'')) (Variable ''a'')))) = [''__proto__'', ''a''] \<and>
   dom (assignment (rows (projr (generateTruthTable
      (Disjunction (Negation (Variable ''__proto__'')) (Variable ''a'')))) ! 1)) = {''a''}"
  unfolding proto_table
  by (simp add: tableRow_def rowAssignment_def storeProperty_def objectPrototypeKeys_def
        drop_bit_eq_div upt_rec)

text \<open>
  C10, amended: for every expression with \<open>k \<le> 15\<close> variables the table has exactly
  \<open>2^k\<close> rows, and in every row the call of \<open>evaluate\<close> returns a value, which is the
  result of the row: the \<open>catch\<close> branch is never taken. When no variable is named
  \<open>__proto__\<close>, every row assignment is defined on exactly the variable list of the
  table.
\<close>

theorem truth_table_total:
  assumes "length (getVariables e) \<le> 15"
  shows "\<exists>t. generateTruthTable e = Inr t \<and>
           set (variables t) = set (getVariables e) \<and>
           length (rows t) = 2 ^ length (getVariables e) \<and>
           (\<forall>i < 2 ^ length (getVariables e).
              assignment (rows t ! i) = rowAssignment (variables t) i \<and>
              (''__proto__'' \<notin> set (getVariables e) \<longrightarrow>
                 dom (assignment (rows t ! i)) = set (variables t)) \<and>
              (\<exists>v. evaluate e (rowAssignment (variables t) i) = Inr v \<and>
                   result (rows t ! i) = v))"
proof -
  let ?vs = "sort (getVariables e)"
  let ?k = "length (getVariables e)"
  let ?t = "\<lparr>variables = ?vs, rows = map (tableRow e ?vs) [0 ..< 2 ^ ?k], expression = e\<rparr>"
  from assms have gen: "generateTruthTable e = Inr ?t"
    by (simp add: generateTruthTable_def validate_fst Let_def)
  have row: "assignment (rows ?t ! i) = rowAssignment (variables ?t) i \<and>
             (''__proto__'' \<notin> set (getVariables e) \<longrightarrow>
                dom (assignment (rows ?t ! i)) = set (variables ?t)) \<and>
             (\<exists>v. evaluate e (rowAssignment (variables ?t) i) = Inr v \<and>
                  result (rows ?t ! i) = v)"
    if "i < 2 ^ ?k" for i
  proof -
    from tableRow_defined [of e ?vs i] obtain v where
      "evaluate e (rowAssignment ?vs i) = Inr v"
      "tableRow e ?vs i = \<lparr>assignment = rowAssignment ?vs i, result = v\<rparr>"
      by auto
    with that show ?thesis by (simp add: rowAssignment_dom)
  qed
  show ?thesis
    using gen row by (intro exI [of _ ?t]) (auto simp: rowAssignment_dom)
qed

theorem truth_table_total_witness:
  "length (getVariables (Conjunction (Variable ''q'') (Variable ''p''))) \<le> 15 \<and>
   ''__proto__'' \<notin> set (getVariables (Conjunction (Variable ''q'') (Variable ''p''))) \<and>
   (\<exists>t. generateTruthTable (Conjunction (Variable ''q'') (Variable ''p'')) = Inr t \<and>
        set (variables t) = {''p'', ''q''} \<and>
        length (rows t) = 4 \<and>
        dom (assignment (rows t ! 3)) = {''p'', ''q''} \<and>
        (\<exists>v. evaluate (Conjunction (Variable ''q'') (Variable ''p''))
                       (rowAssignment (variables t) 3) = Inr v \<and>
             result (rows t ! 3) = v))"
proof -
  let ?e = "Conjunction (Variable ''q'') (Variable ''p'')"
  have k: "length (getVariables ?e) = 2" by (simp add: newSet_def)
  then have le: "length (getVariables ?e) \<le> 15" by simp
  have np: "''__proto__'' \<notin> set (getVariables ?e)" by (simp add: newSet_def)
  from truth_table_total [OF le] obtain t where
    T: "generateTruthTable ?e = Inr t \<and>
        set (variables t) = set (getVariables ?e) \<and>
        length (rows t) = 2 ^ length (getVariables ?e) \<and>
        (\<forall>i < 2 ^ length (getVariables ?e).
            assignment (rows t ! i) = rowAssignment (variables t) i \<and>
            (''__proto__'' \<notin> set (getVariables ?e) \<longrightarrow>
               dom (assignment (rows t ! i)) = set (variables t)) \<and>
            (\<exists>v. evaluate ?e (rowAssignment (variables t) i) = Inr v \<and>
                 result (rows t ! i) = v))"
    by (rule exE)
  note t1 = T [THEN conjunct1]
  note t2 = T [THEN conjunct2, THEN conjunct1]
  note t3 = T [THEN conjunct2, THEN conjunct2, THEN conjunct1]
  note row = T [THEN conjunct2, THEN conjunct2, THEN conjunct2]
  have lt: "(3::nat) < 2 ^ length (getVariables ?e)" unfolding k by simp
  note r = row [rule_format, OF lt]
  note r3 = r [THEN conjunct2, THEN conjunct1, rule_format, OF np]
            r [THEN conjunct2, THEN conjunct2]
  have vars: "set (getVariables ?e) = {''p'', ''q''}" by (auto simp: newSet_def)
  from t3 have len: "length (rows t) = 4" unfolding k by simp
  from t2 have t2': "set (variables t) = {''p'', ''q''}" unfolding vars .
  from r3(1) have r3': "dom (assignment (rows t ! 3)) = {''p'', ''q''}" unfolding t2' .
  from t1 t2' len r3' r3(2) have
    "generateTruthTable ?e = Inr t \<and> set (variables t) = {''p'', ''q''} \<and>
     length (rows t) = 4 \<and> dom (assignment (rows t ! 3)) = {''p'', ''q''} \<and>
     (\<exists>v. evaluate ?e (rowAssignment (variables t) 3) = Inr v \<and> result (rows t ! 3) = v)"
    by (intro conjI)
  then have "\<exists>t. generateTruthTable ?e = Inr t \<and> set (variables t) = {''p'', ''q''} \<and>
     length (rows t) = 4 \<and> dom (assignment (rows t ! 3)) = {''p'', ''q''} \<and>
     (\<exists>v. evaluate ?e (rowAssignment (variables t) 3) = Inr v \<and> result (rows t ! 3) = v)"
    by (intro exI [of _ t])
  with le np show ?thesis by (intro conjI)
qed


section \<open>The rewrite driver\<close>

lemma numLe_numSub: "numLe i (numSub m k) = numLe (i + k) m"
  by (cases m) auto

lemma rootTransformations_set:
  "set (rootTransformations e rs m) =
   {(e', r, sub). r \<in> set rs \<and> canApply r e \<and> apply_rule r e = Returned e' \<and>
                  numLe (getLength e') m \<and> sub = e}"
  by (induction rs) (auto split: applied.splits)

lemma root_iff:
  "(e', r, sub) \<in> set (rootTransformations e rs m) \<longleftrightarrow>
   r \<in> set rs \<and> canApply r e \<and> apply_rule r e = Returned e' \<and> numLe (getLength e') m \<and>
   sub = e"
  by (simp add: rootTransformations_set)

lemma liftNegation_iff:
  "(e', r, sub) \<in> set (liftNegation m ts) \<longleftrightarrow>
   (\<exists>x'. e' = Negation x' \<and> (x', r, sub) \<in> set ts \<and> numLe (getLength x' + 1) m)"
  by (force simp: liftNegation_def)

lemma liftLeft_iff:
  "(e', r, sub) \<in> set (liftLeft opr rt m ts) \<longleftrightarrow>
   (\<exists>l'. e' = BinaryOperation opr l' rt \<and> (l', r, sub) \<in> set ts \<and>
         numLe (getLength l' + getLength rt + 1) m)"
  by (force simp: liftLeft_def)

lemma liftRight_iff:
  "(e', r, sub) \<in> set (liftRight opr l m ts) \<longleftrightarrow>
   (\<exists>rt'. e' = BinaryOperation opr l rt' \<and> (rt', r, sub) \<in> set ts \<and>
         numLe (getLength l + getLength rt' + 1) m)"
  by (force simp: liftRight_def)

lemma getAll_iff:
  "(e', r, sub) \<in> set (getAllPossibleTransformations e rs m) \<longleftrightarrow>
   rewritesTo rs e (e', r, sub) \<and> numLe (getLength e') m"
proof (induction e arbitrary: e' m)
  case (Negation x)
  have "rewritesTo rs (Negation x) (e', r, sub) \<longleftrightarrow>
        (r \<in> set rs \<and> canApply r (Negation x) \<and> apply_rule r (Negation x) = Returned e' \<and>
         sub = Negation x) \<or>
        (\<exists>x'. e' = Negation x' \<and> rewritesTo rs x (x', r, sub))"
    by (auto elim: rewritesTo.cases intro: rewritesTo.intros)
  then show ?case
    by (auto simp: root_iff liftNegation_iff Negation.IH numLe_numSub)
next
  case (BinaryOperation opr l rt)
  have "rewritesTo rs (BinaryOperation opr l rt) (e', r, sub) \<longleftrightarrow>
        (r \<in> set rs \<and> canApply r (BinaryOperation opr l rt) \<and>
         apply_rule r (BinaryOperation opr l rt) = Returned e' \<and>
         sub = BinaryOperation opr l rt) \<or>
        (\<exists>l'. e' = BinaryOperation opr l' rt \<and> rewritesTo rs l (l', r, sub)) \<or>
        (\<exists>rt'. e' = BinaryOperation opr l rt' \<and> rewritesTo rs rt (rt', r, sub))"
    by (auto elim: rewritesTo.cases intro: rewritesTo.intros)
  then show ?case
    by (auto simp: root_iff liftLeft_iff liftRight_iff BinaryOperation.IH numLe_numSub
          add.commute add.left_commute)
next
  case (Variable v)
  have "rewritesTo rs (Variable v) (e', r, sub) \<longleftrightarrow>
        (r \<in> set rs \<and> canApply r (Variable v) \<and> apply_rule r (Variable v) = Returned e' \<and>
         sub = Variable v)"
    by (auto elim: rewritesTo.cases intro: rewritesTo.intros)
  then show ?case by (auto simp: root_iff)
next
  case TrueConstant
  have "rewritesTo rs TrueConstant (e', r, sub) \<longleftrightarrow>
        (r \<in> set rs \<and> canApply r TrueConstant \<and> apply_rule r TrueConstant = Returned e' \<and>
         sub = TrueConstant)"
    by (auto elim: rewritesTo.cases intro: rewritesTo.intros)
  then show ?case by (auto simp: root_iff)
next
  case FalseConstant
  have "rewritesTo rs FalseConstant (e', r, sub) \<longleftrightarrow>
        (r \<in> set rs \<and> canApply r FalseConstant \<and> apply_rule r FalseConstant = Returned e' \<and>
         sub = FalseConstant)"
    by (auto elim: rewritesTo.cases intro: rewritesTo.intros)
  then show ?case by (auto simp: root_iff)
qed

lemma rewritesTo_vars:
  "rewritesTo rs e t \<Longrightarrow> set (getVariables (fst t)) \<subseteq> set (getVariables e)"
proof (induction rule: rewritesTo.induct)
  case (atRoot r e e')
  with apply_sound [of r e] show ?case by auto
qed (auto simp: set_newSet)

lemma getAll_length:
  "(e', r, sub) \<in> set (getAllPossibleTransformations e rs m) \<Longrightarrow> numLe (getLength e') m"
  by (simp add: getAll_iff)

lemma getAll_vars:
  "(e', r, sub) \<in> set (getAllPossibleTransformations e rs m) \<Longrightarrow>
   set (getVariables e') \<subseteq> set (getVariables e)"
  using rewritesTo_vars [of rs e "(e', r, sub)"] by (simp add: getAll_iff)


section \<open>The search loop\<close>

text \<open>
  A rule for the loop: an invariant \<open>I\<close> that every round keeps, a measure that every
  round but the last lowers, and a property \<open>Q\<close> of what the loop returns. The loop then
  returns, and what it returns has \<open>Q\<close>.
\<close>

lemma searchLoop_rule:
  assumes "I queue visited n m"
    and "\<And>vis n m. I [] vis n m \<Longrightarrow> Q None n m"
    and "\<And>cur rest vis n m. I (cur # rest) vis n m \<Longrightarrow> numGe (n + 1) maxS \<Longrightarrow>
           Q None (n + 1) m"
    and "\<And>cur rest vis n m. I (cur # rest) vis n m \<Longrightarrow> \<not> numGe (n + 1) maxS \<Longrightarrow>
           numGe (node_depth cur) maxD \<Longrightarrow>
           I rest vis (n + 1) m \<and> \<mu> rest vis (n + 1) < (\<mu> (cur # rest) vis n :: nat)"
    and "\<And>cur rest vis n m node. I (cur # rest) vis n m \<Longrightarrow> \<not> numGe (n + 1) maxS \<Longrightarrow>
           \<not> numGe (node_depth cur) maxD \<Longrightarrow>
           visitTransformations T cur
             (getAllPossibleTransformations (node_expression cur) rs maxL) rest vis = Inl node \<Longrightarrow>
           Q (Some node) (n + 1) (max m (node_depth cur))"
    and "\<And>cur rest vis n m q' v'. I (cur # rest) vis n m \<Longrightarrow> \<not> numGe (n + 1) maxS \<Longrightarrow>
           \<not> numGe (node_depth cur) maxD \<Longrightarrow>
           visitTransformations T cur
             (getAllPossibleTransformations (node_expression cur) rs maxL) rest vis = Inr (q', v') \<Longrightarrow>
           I q' v' (n + 1) (max m (node_depth cur)) \<and>
           \<mu> q' v' (n + 1) < \<mu> (cur # rest) vis n"
  shows "\<exists>node explored reached w'.
           searchLoop T maxD maxS maxL rs cb queue visited n m w =
             Some ((node, explored, reached), w') \<and> Q node explored reached"
  using assms(1)
proof (induction "\<mu> queue visited n" arbitrary: queue visited n m w rule: less_induct)
  case less
  show ?case
  proof (cases queue)
    case Nil
    with less.prems assms(2) show ?thesis
      by (subst searchLoop.simps) auto
  next
    case (Cons cur rest)
    define w' where "w' = (case cb of None \<Rightarrow> w
             | Some f \<Rightarrow> if (n + 1) mod 100 = 0 then f (n + 1) (node_depth cur) w else w)"
    note inv = less.prems [unfolded Cons]
    show ?thesis
    proof (cases "numGe (n + 1) maxS")
      case True
      with assms(3) [OF inv] Cons show ?thesis
        by (subst searchLoop.simps) (simp add: Let_def)
    next
      case budget: False
      show ?thesis
      proof (cases "numGe (node_depth cur) maxD")
        case True
        from assms(4) [OF inv budget True]
        have i: "I rest visited (n + 1) m"
          and d: "\<mu> rest visited (n + 1) < \<mu> queue visited n"
          unfolding Cons by simp_all
        from less.hyps [OF d i, of w']
        obtain node explored reached w'' where
          "searchLoop T maxD maxS maxL rs cb rest visited (n + 1) m w' =
             Some ((node, explored, reached), w'')" "Q node explored reached"
          by blast
        with budget True Cons show ?thesis
          by (subst searchLoop.simps) (simp add: Let_def w'_def)
      next
        case depth: False
        show ?thesis
        proof (cases "visitTransformations T cur
             (getAllPossibleTransformations (node_expression cur) rs maxL) rest visited")
          case (Inl node)
          with assms(5) [OF inv budget depth Inl] budget depth Cons show ?thesis
            by (subst searchLoop.simps) (simp add: Let_def)
        next
          case (Inr b)
          obtain q' v' where b: "b = (q', v')" by (cases b)
          from assms(6) [OF inv budget depth Inr [unfolded b]]
          have i: "I q' v' (n + 1) (max m (node_depth cur))"
            and d: "\<mu> q' v' (n + 1) < \<mu> queue visited n"
            unfolding Cons by simp_all
          from less.hyps [OF d i, of w']
          obtain node explored reached w'' where
            "searchLoop T maxD maxS maxL rs cb q' v' (n + 1) (max m (node_depth cur)) w' =
               Some ((node, explored, reached), w'')" "Q node explored reached"
            by blast
          with budget depth Cons Inr b show ?thesis
            by (subst searchLoop.simps) (simp add: Let_def w'_def)
        qed
      qed
    qed
  qed
qed

lemma visit_Inl:
  "visitTransformations T cur ts q vis = Inl node \<Longrightarrow>
   \<exists>t \<in> set ts. node = mkNode cur t \<and> equals (fst t) T \<and> getHash (fst t) \<notin> vis"
proof (induction ts arbitrary: q vis)
  case Nil
  then show ?case by simp
next
  case (Cons t ts)
  obtain e' r sub where t: "t = (e', r, sub)" by (cases t)
  show ?case
  proof (cases "getHash e' \<in> vis")
    case True
    with Cons.prems t have "visitTransformations T cur ts q vis = Inl node" by simp
    from Cons.IH [OF this] show ?thesis by auto
  next
    case False
    show ?thesis
    proof (cases "equals e' T")
      case True
      with Cons.prems t False show ?thesis by (auto simp: mkNode_def Let_def)
    next
      case ne: False
      with Cons.prems t False have
        "visitTransformations T cur ts (q @ [mkNode cur t]) (insert (getHash e') vis) = Inl node"
        by (simp add: mkNode_def Let_def)
      from Cons.IH [OF this] show ?thesis by auto
    qed
  qed
qed


lemma mkNode_expression: "node_expression (mkNode cur t) = fst t"
  by (cases t) (simp add: mkNode_def)

lemma visit_Inr_nodes:
  "visitTransformations T cur ts q vis = Inr (q', v') \<Longrightarrow>
   \<forall>x \<in> set q'. x \<in> set q \<or> (\<exists>t \<in> set ts. x = mkNode cur t)"
proof (induction ts arbitrary: q vis)
  case Nil
  then show ?case by simp
next
  case (Cons t ts)
  obtain e' r sub where t: "t = (e', r, sub)" by (cases t)
  show ?case
  proof (cases "getHash e' \<in> vis")
    case True
    with Cons.prems t have "visitTransformations T cur ts q vis = Inr (q', v')" by simp
    from Cons.IH [OF this] show ?thesis by auto
  next
    case False
    with Cons.prems t have ne: "\<not> equals e' T"
      by (auto simp: Let_def split: if_splits)
    with Cons.prems t False have
      "visitTransformations T cur ts (q @ [mkNode cur t]) (insert (getHash e') vis) = Inr (q', v')"
      by (simp add: mkNode_def Let_def)
    from Cons.IH [OF this] show ?thesis by auto
  qed
qed

lemma visit_Inr_count:
  "visitTransformations T cur ts q vis = Inr (q', v') \<Longrightarrow> finite H \<Longrightarrow> vis \<subseteq> H \<Longrightarrow>
   getHash ` fst ` set ts \<subseteq> H \<Longrightarrow>
   v' \<subseteq> H \<and> length q' + card (H - v') = length q + card (H - vis)"
proof (induction ts arbitrary: q vis)
  case Nil
  then show ?case by simp
next
  case (Cons t ts)
  obtain e' r sub where t: "t = (e', r, sub)" by (cases t)
  from Cons.prems(4) t have h: "getHash e' \<in> H" and rest: "getHash ` fst ` set ts \<subseteq> H"
    by simp_all
  show ?case
  proof (cases "getHash e' \<in> vis")
    case True
    with Cons.prems t have "visitTransformations T cur ts q vis = Inr (q', v')" by simp
    from Cons.IH [OF this Cons.prems(2,3) rest] show ?thesis .
  next
    case False
    with Cons.prems t have ne: "\<not> equals e' T"
      by (auto simp: Let_def split: if_splits)
    with Cons.prems t False have
      "visitTransformations T cur ts (q @ [mkNode cur t]) (insert (getHash e') vis) = Inr (q', v')"
      by (simp add: mkNode_def Let_def)
    moreover from h Cons.prems(3) have "insert (getHash e') vis \<subseteq> H" by simp
    ultimately have
      "v' \<subseteq> H \<and> length q' + card (H - v') =
         length (q @ [mkNode cur t]) + card (H - insert (getHash e') vis)"
      using Cons.prems(2) rest by (intro Cons.IH)
    moreover have "getHash e' \<in> H - vis" using h False by simp
    then have "card (H - insert (getHash e') vis) + 1 = card (H - vis)"
      using Cons.prems(2)
      by (metis Diff_insert Suc_eq_plus1 card_Suc_Diff1 finite_Diff)
    ultimately show ?thesis by simp
  qed
qed


section \<open>When the search returns\<close>

lemma getLength_pos: "1 \<le> getLength e"
  by (induction e) auto

lemma finite_bounded_nat:
  "finite V \<Longrightarrow> finite {e. getLength e \<le> int n \<and> set (getVariables e) \<subseteq> V}"
proof (induction n)
  case 0
  have "\<not> getLength e \<le> int 0" for e
    using getLength_pos [of e] by simp
  then have "{e. getLength e \<le> int 0 \<and> set (getVariables e) \<subseteq> V} = {}"
    by blast
  then show ?case by (metis finite.emptyI)
next
  case (Suc n)
  let ?B = "{e. getLength e \<le> int n \<and> set (getVariables e) \<subseteq> V}"
  have sub: "{e. getLength e \<le> int (Suc n) \<and> set (getVariables e) \<subseteq> V} \<subseteq>
        Variable ` V \<union> {TrueConstant, FalseConstant} \<union> Negation ` ?B \<union>
        (\<lambda>(opr, l, r). BinaryOperation opr l r) ` (UNIV \<times> ?B \<times> ?B)"
  proof
    fix e
    assume "e \<in> {e. getLength e \<le> int (Suc n) \<and> set (getVariables e) \<subseteq> V}"
    then have e: "getLength e \<le> int n + 1" "set (getVariables e) \<subseteq> V" by simp_all
    show "e \<in> Variable ` V \<union> {TrueConstant, FalseConstant} \<union> Negation ` ?B \<union>
        (\<lambda>(opr, l, r). BinaryOperation opr l r) ` (UNIV \<times> ?B \<times> ?B)"
    proof (cases e)
      case (Variable v)
      with e show ?thesis by simp
    next
      case (Negation x)
      with e have "x \<in> ?B" by simp
      with Negation show ?thesis by blast
    next
      case (BinaryOperation opr l r)
      with e getLength_pos [of l] getLength_pos [of r] have "l \<in> ?B" "r \<in> ?B"
        by (simp_all add: set_newSet)
      then have "(opr, l, r) \<in> UNIV \<times> ?B \<times> ?B" by simp
      then have "(\<lambda>(opr, l, r). BinaryOperation opr l r) (opr, l, r)
                 \<in> (\<lambda>(opr, l, r). BinaryOperation opr l r) ` (UNIV \<times> ?B \<times> ?B)"
        by (rule imageI)
      with BinaryOperation show ?thesis by simp
    next
      case TrueConstant
      then show ?thesis by simp
    next
      case FalseConstant
      then show ?thesis by simp
    qed
  qed
  have "finite (UNIV :: binop set)"
  proof -
    have "(UNIV :: binop set) = {AND, OR, IMP, IFF}"
      using binop.exhaust by auto
    then show ?thesis by (metis finite.emptyI finite.insertI)
  qed
  with Suc have "finite (Variable ` V \<union> {TrueConstant, FalseConstant} \<union> Negation ` ?B \<union>
        (\<lambda>(opr, l, r). BinaryOperation opr l r) ` (UNIV \<times> ?B \<times> ?B))"
    by simp
  with sub show ?case by (rule finite_subset)
qed


lemma finite_bounded:
  "L \<noteq> Infinity \<Longrightarrow> finite {e. numLe (getLength e) L \<and> set (getVariables e) \<subseteq> set vs}"
proof (cases L)
  case (Finite x)
  have "getLength e \<le> int (nat \<lfloor>x\<rfloor>)" if "numLe (getLength e) L" for e
    using that Finite by (simp add: le_floor_iff)
  then have "{e. numLe (getLength e) L \<and> set (getVariables e) \<subseteq> set vs} \<subseteq>
        {e. getLength e \<le> int (nat \<lfloor>x\<rfloor>) \<and> set (getVariables e) \<subseteq> set vs}"
    by blast
  then show ?thesis
    by (rule finite_subset) (rule finite_bounded_nat, simp)
qed simp_all

lemma numGt_not_numLe: "numGt i m \<Longrightarrow> \<not> numLe i m \<and> m \<noteq> Infinity"
  by (cases m) auto

text \<open>
  With a length budget other than \<open>Infinity\<close> the loop returns, whatever the other two
  budgets are: every hash that enters the visited set is the hash of the start or of an
  expression within the budget, and the number of such hashes not yet visited plus the
  length of the queue goes down in every round.
\<close>

lemma searchLoop_finite:
  assumes L: "maxL \<noteq> Infinity"
  shows "\<exists>node explored reached w'.
           searchLoop T maxD maxS maxL rs cb [ProofNode S None None None 0] {getHash S} 0 0 w =
             Some ((node, explored, reached), w') \<and>
           1 \<le> explored \<and> explored \<le> 1 + int (card (withinBudget S maxL)) \<and>
           (\<forall>x. node = Some x \<longrightarrow> node_expression x = T \<and> numLe (getLength T) maxL)"
proof -
  define H where "H = insert (getHash S) (getHash ` withinBudget S maxL)"
  have finB: "finite (withinBudget S maxL)"
    unfolding withinBudget_def using finite_bounded [OF L, of "getVariables S"] by simp
  then have fin: "finite H" unfolding H_def by simp
  have "card H \<le> 1 + card (getHash ` withinBudget S maxL)"
    unfolding H_def using finB by (simp add: card_insert_if)
  also have "\<dots> \<le> 1 + card (withinBudget S maxL)"
    using finB by (simp add: card_image_le)
  finally have cardH: "int (card H) \<le> 1 + int (card (withinBudget S maxL))" by simp
  have hS: "getHash S \<in> H" unfolding H_def by simp
  define I where "I = (\<lambda>(q :: ProofNode list) (v :: string set) (n :: int) (m :: int).
     v \<subseteq> H \<and> (\<forall>x \<in> set q. set (getVariables (node_expression x)) \<subseteq> set (getVariables S)) \<and>
     (q \<noteq> [] \<or> 1 \<le> n) \<and> 0 \<le> n \<and>
     n + int (length q) + int (card (H - v)) \<le> int (card H))"
  define Q where "Q = (\<lambda>(node :: ProofNode option) (explored :: int) (reached :: int).
     1 \<le> explored \<and> explored \<le> int (card H) \<and>
     (\<forall>x. node = Some x \<longrightarrow> node_expression x = T \<and> numLe (getLength T) maxL))"
  define \<mu> where "\<mu> = (\<lambda>(q :: ProofNode list) (v :: string set) (n :: int).
     length q + card (H - v))"
  have ts_ok: "getHash ` fst ` set (getAllPossibleTransformations (node_expression cur) rs maxL)
                 \<subseteq> H \<and>
               (\<forall>t \<in> set (getAllPossibleTransformations (node_expression cur) rs maxL).
                  set (getVariables (fst t)) \<subseteq> set (getVariables S))"
    if "set (getVariables (node_expression cur)) \<subseteq> set (getVariables S)" for cur
  proof -
    have "numLe (getLength (fst t)) maxL \<and>
          set (getVariables (fst t)) \<subseteq> set (getVariables S)"
      if "t \<in> set (getAllPossibleTransformations (node_expression cur) rs maxL)" for t
    proof -
      obtain e' r sub where t: "t = (e', r, sub)" by (cases t)
      from that getAll_length [of e' r sub "node_expression cur" rs maxL]
           getAll_vars [of e' r sub "node_expression cur" rs maxL]
           \<open>set (getVariables (node_expression cur)) \<subseteq> set (getVariables S)\<close> t
      show ?thesis by auto
    qed
    then show ?thesis unfolding H_def withinBudget_def by auto
  qed
  have init: "I [ProofNode S None None None 0] {getHash S} 0 0"
  proof -
    have "card (H - {getHash S}) + 1 = card H"
      using fin hS by (metis Suc_eq_plus1 card_Suc_Diff1 Diff_insert_absorb
            card_Diff_singleton card.remove)
    then show ?thesis unfolding I_def using hS by simp
  qed
  have "\<exists>node explored reached w'.
           searchLoop T maxD maxS maxL rs cb [ProofNode S None None None 0] {getHash S} 0 0 w =
             Some ((node, explored, reached), w') \<and> Q node explored reached"
  proof (rule searchLoop_rule [where I = I and Q = Q and \<mu> = \<mu>, OF init], goal_cases)
    case (1 vis n m)
    then show ?case unfolding I_def Q_def by simp
  next
    case (2 cur rest vis n m)
    then show ?case unfolding I_def Q_def by simp
  next
    case (3 cur rest vis n m)
    then show ?case unfolding I_def \<mu>_def by simp
  next
    case (4 cur rest vis n m node)
    from visit_Inl [OF 4(4)] obtain t where
      t: "t \<in> set (getAllPossibleTransformations (node_expression cur) rs maxL)"
         "node = mkNode cur t" "equals (fst t) T"
      by blast
    obtain e' r sub where "t = (e', r, sub)" by (cases t)
    with t getAll_length [of e' r sub "node_expression cur" rs maxL] 4(1) show ?case
      unfolding I_def Q_def by (auto simp: mkNode_def equals_iff)
  next
    case (5 cur rest vis n m q' v')
    from 5(1) have cur: "set (getVariables (node_expression cur)) \<subseteq> set (getVariables S)"
      and vis: "vis \<subseteq> H" unfolding I_def by simp_all
    note ok = ts_ok [OF cur]
    from visit_Inr_count [OF 5(4) fin vis ok [THEN conjunct1]]
    have c: "v' \<subseteq> H" "length q' + card (H - v') = length rest + card (H - vis)"
      by simp_all
    have nodes: "\<forall>x \<in> set q'. set (getVariables (node_expression x)) \<subseteq> set (getVariables S)"
    proof
      fix x
      assume "x \<in> set q'"
      with visit_Inr_nodes [OF 5(4)] consider "x \<in> set rest"
        | t where "t \<in> set (getAllPossibleTransformations (node_expression cur) rs maxL)"
                  "x = mkNode cur t"
        by blast
      then show "set (getVariables (node_expression x)) \<subseteq> set (getVariables S)"
      proof cases
        case 1
        with 5(1) show ?thesis unfolding I_def by simp
      next
        case 2
        with ok [THEN conjunct2] show ?thesis by (simp add: mkNode_expression)
      qed
    qed
    from c have c': "int (length q') + int (card (H - v')) =
                     int (length rest) + int (card (H - vis))"
      by (metis of_nat_add)
    from 5(1) c c' nodes show ?case unfolding I_def \<mu>_def by simp
  qed
  with cardH show ?thesis unfolding Q_def by force
qed








section \<open>The length gate\<close>

text \<open>
  C9. Every transformation that the rewrite driver returns is within the length budget,
  and only those are compared with the target: when the target is longer than
  \<open>maxExpressionLength\<close> and different from the start, the search returns \<open>found = false\<close>,
  whatever the other budgets are.
\<close>

theorem length_gate:
  "(\<forall>(e', r, sub) \<in> set (getAllPossibleTransformations e rs maxL).
      numLe (getLength e') maxL) \<and>
   (\<not> equals S T \<and>
    numGt (getLength T) (case maxExpressionLength opts of None \<Rightarrow> Finite 15 | Some l \<Rightarrow> l) \<longrightarrow>
    (\<exists>p w'. findTransformationProof S T opts w = Some (p, w') \<and> \<not> found p))"
proof (intro conjI impI)
  show "\<forall>(e', r, sub) \<in> set (getAllPossibleTransformations e rs maxL).
          numLe (getLength e') maxL"
    using getAll_length by blast
next
  assume a: "\<not> equals S T \<and>
    numGt (getLength T) (case maxExpressionLength opts of None \<Rightarrow> Finite 15 | Some l \<Rightarrow> l)"
  define maxD where "maxD = (case maxDepth opts of None \<Rightarrow> Finite 15 | Some d \<Rightarrow> d)"
  define maxS where "maxS = (case maxStates opts of None \<Rightarrow> Finite 10000 | Some n \<Rightarrow> n)"
  define maxL where "maxL = (case maxExpressionLength opts of None \<Rightarrow> Finite 15 | Some n \<Rightarrow> n)"
  define rs where "rs = (case rules opts of None \<Rightarrow> ALL_TRANSFORMATION_RULES | Some l \<Rightarrow> l)"
  from a have gt: "numGt (getLength T) maxL" by (simp add: maxL_def)
  note n = numGt_not_numLe [OF gt]
  from searchLoop_finite [OF n [THEN conjunct2], of T maxD maxS rs "onProgress opts" S w]
  obtain node explored reached w' where
    r: "searchLoop T maxD maxS maxL rs (onProgress opts)
          [ProofNode S None None None 0] {getHash S} 0 0 w =
        Some ((node, explored, reached), w')"
    and t: "\<forall>x. node = Some x \<longrightarrow> node_expression x = T \<and> numLe (getLength T) maxL"
    by blast
  from t n have "node = None" by (cases node) auto
  with r a show "\<exists>p w'. findTransformationProof S T opts w = Some (p, w') \<and> \<not> found p"
    unfolding findTransformationProof_def Let_def
      maxD_def [symmetric] maxS_def [symmetric] maxL_def [symmetric] rs_def [symmetric]
    by simp
qed

theorem length_gate_witness:
  "(Variable ''a'', DoubleNegation, Negation (Negation (Variable ''a'')))
     \<in> set (getAllPossibleTransformations (Negation (Negation (Variable ''a'')))
              [DoubleNegation] (Finite 1)) \<and>
   numLe (getLength (Variable ''a'')) (Finite 1) \<and>
   \<not> equals (Variable ''a'') (Negation (Variable ''a'')) \<and>
   numGt (getLength (Negation (Variable ''a''))) (Finite 1) \<and>
   (\<exists>p w'. findTransformationProof (Variable ''a'') (Negation (Variable ''a''))
       \<lparr>maxDepth = None, maxStates = None, maxExpressionLength = Some (Finite 1), rules = None,
        onProgress = None\<rparr> () = Some (p, w') \<and> \<not> found p)"
proof -
  let ?opts = "\<lparr>maxDepth = None, maxStates = None, maxExpressionLength = Some (Finite 1),
                rules = None, onProgress = None\<rparr> :: unit ProofSearchOptions"
  note g = length_gate [of "Negation (Negation (Variable ''a''))" "[DoubleNegation]" "Finite 1"
                           "Variable ''a''" "Negation (Variable ''a'')" ?opts "()"]
  have m: "(Variable ''a'', DoubleNegation, Negation (Negation (Variable ''a'')))
     \<in> set (getAllPossibleTransformations (Negation (Negation (Variable ''a'')))
              [DoubleNegation] (Finite 1))"
    by (simp add: liftNegation_def)
  from g [THEN conjunct1] m have l: "numLe (getLength (Variable ''a'')) (Finite 1)" by blast
  have h: "\<not> equals (Variable ''a'') (Negation (Variable ''a'')) \<and>
           numGt (getLength (Negation (Variable ''a'')))
             (case maxExpressionLength ?opts of None \<Rightarrow> Finite 15 | Some l \<Rightarrow> l)"
    by simp
  from g [THEN conjunct2] h
  have nf: "\<exists>p w'. findTransformationProof (Variable ''a'') (Negation (Variable ''a''))
              ?opts () = Some (p, w') \<and> \<not> found p"
    by (rule mp)
  have "\<not> equals (Variable ''a'') (Negation (Variable ''a''))"
    and "numGt (getLength (Negation (Variable ''a''))) (Finite 1)"
    by simp_all
  with m l nf show ?thesis by (intro conjI)
qed


section \<open>A search that never ends\<close>









section \<open>The search ends\<close>





section \<open>The progress callback\<close>










end
